theory Spec2Isabelle
  imports Complex_Main
begin

section \<open>Air cargo booking: route search and booking status transitions\<close>

text \<open>
  A shallow embedding of the two request handlers of the repository:
  \<^verbatim>\<open>supabase/functions/get-routes/index.ts\<close> (route search) and the
  \<^verbatim>\<open>update-booking-status\<close> handler, together with the parts of the
  migration (table constraints, the event trigger) that the handlers rely on.

  Conventions of the model.
  \<^item> An instant (\<^verbatim>\<open>TIMESTAMP WITH TIME ZONE\<close> in the tables, an ISO string in
    the handlers, \<^verbatim>\<open>new Date(s).getTime()\<close> where the code computes) is an
    \<open>int\<close>: milliseconds since the epoch. Instants are taken at millisecond
    resolution and in the range where the arithmetic of JavaScript numbers is exact.
  \<^item> The runtime's time zone is UTC, so \<^verbatim>\<open>setDate(getDate() + n)\<close> adds
    \<open>n\<close> days of 86400000 ms.
  \<^item> A query of the store client resolves to \<^verbatim>\<open>{ data, error }\<close> and never
    throws: a failed query has \<^verbatim>\<open>data: null\<close>.
  \<^item> The handlers are modelled from the point where the JSON body has been read;
    the CORS preflight branch and a body that is not JSON are not part of the model.
\<close>

subsection \<open>Numbers and strings of the runtime\<close>

text \<open>JavaScript's \<^verbatim>\<open>%\<close>: the remainder has the sign of the dividend.\<close>

definition js_rem :: "int \<Rightarrow> int \<Rightarrow> int" where
  "js_rem a b = sgn a * (\<bar>a\<bar> mod \<bar>b\<bar>)"

definition digit_char :: "nat \<Rightarrow> char" where
  "digit_char d = char_of (48 + d)"

text \<open>The decimal digits of a natural number, most significant first.\<close>

fun digits_of :: "nat \<Rightarrow> string" where
  "digits_of n = (if n < 10 then [digit_char n] else digits_of (n div 10) @ [digit_char (n mod 10)])"

declare digits_of.simps [simp del]

text \<open>
  What a template literal prints for an integral number: a minus sign and the
  digits. Negative zero prints as \<^verbatim>\<open>0\<close>, as the integer zero does here.
\<close>

definition show_int :: "int \<Rightarrow> string" where
  "show_int i = (if i < 0 then CHR ''-'' # digits_of (nat (- i)) else digits_of (nat i))"

text \<open>The character classes \<^verbatim>\<open>\d\<close> and \<^verbatim>\<open>\s\<close> (on ASCII).\<close>

definition is_digit :: "char \<Rightarrow> bool" where
  "is_digit c = (48 \<le> (of_char c :: nat) \<and> (of_char c :: nat) \<le> 57)"

definition is_space :: "char \<Rightarrow> bool" where
  "is_space c = ((of_char c :: nat) = 32 \<or> (9 \<le> (of_char c :: nat) \<and> (of_char c :: nat) \<le> 13))"

text \<open>\<^verbatim>\<open>parseInt\<close> on a string of decimal digits.\<close>

definition parseInt :: "string \<Rightarrow> int" where
  "parseInt ds = foldl (\<lambda>acc c. acc * 10 + (int (of_char c) - 48)) 0 ds"

subsection \<open>Durations\<close>

text \<open>
  \<^verbatim>\<open>calculateDuration(start, end)\<close>: the difference in milliseconds, its floor in
  hours, the floor in minutes of the remainder (JavaScript's remainder), printed
  as \<^verbatim>\<open>`${hours}h ${minutes}m`\<close>.
\<close>

definition duration_hours :: "int \<Rightarrow> int" where
  "duration_hours diffMs = \<lfloor>(of_int diffMs :: rat) / (1000 * 60 * 60)\<rfloor>"

definition duration_minutes :: "int \<Rightarrow> int" where
  "duration_minutes diffMs = \<lfloor>(of_int (js_rem diffMs (1000 * 60 * 60)) :: rat) / (1000 * 60)\<rfloor>"

definition calculateDuration :: "int \<Rightarrow> int \<Rightarrow> string" where
  "calculateDuration start end_t =
     (let diffMs = end_t - start;
          hours = duration_hours diffMs;
          minutes = duration_minutes diffMs
      in show_int hours @ ''h '' @ show_int minutes @ ''m'')"

text \<open>
  The regular expression \<^verbatim>\<open>/(\d+)h\s*(\d+)m/\<close> tried at the start of a string.
  The classes \<^verbatim>\<open>\d\<close>, \<^verbatim>\<open>\s\<close> and the letters \<^verbatim>\<open>h\<close>, \<^verbatim>\<open>m\<close> are
  pairwise disjoint, so the greedy choice of each repetition is the only one that
  can lead to a match: giving a character back leaves a digit where \<^verbatim>\<open>h\<close> or
  \<^verbatim>\<open>m\<close> is expected, or a space where a digit is. The result is the pair of
  captured groups.
\<close>

definition match_at :: "string \<Rightarrow> (string \<times> string) option" where
  "match_at s =
     (let d1 = takeWhile is_digit s; r1 = dropWhile is_digit s in
      if d1 = [] then None
      else case r1 of
        [] \<Rightarrow> None
      | c # r2 \<Rightarrow>
          if c \<noteq> CHR ''h'' then None
          else
            let r3 = dropWhile is_space r2;
                d2 = takeWhile is_digit r3;
                r4 = dropWhile is_digit r3
            in if d2 = [] then None
               else case r4 of
                 [] \<Rightarrow> None
               | c' # r5 \<Rightarrow> if c' = CHR ''m'' then Some (d1, d2) else None)"

text \<open>\<^verbatim>\<open>String.prototype.match\<close> without the global flag: the leftmost match.\<close>

fun regex_match :: "string \<Rightarrow> (string \<times> string) option" where
  "regex_match [] = None"
| "regex_match (c # cs) =
     (case match_at (c # cs) of Some m \<Rightarrow> Some m | None \<Rightarrow> regex_match cs)"

definition parseDuration :: "string \<Rightarrow> int" where
  "parseDuration duration =
     (case regex_match duration of
        Some (h, m) \<Rightarrow> parseInt h * 60 + parseInt m
      | None \<Rightarrow> 0)"

text \<open>
  The strings in which the regular expression has a match somewhere, stated
  declaratively: some digits, \<^verbatim>\<open>h\<close>, any white space, some digits, \<^verbatim>\<open>m\<close>.
\<close>

definition has_match :: "string \<Rightarrow> bool" where
  "has_match s = (\<exists>pre d1 ws d2 post.
     s = pre @ d1 @ ''h'' @ ws @ d2 @ ''m'' @ post \<and>
     d1 \<noteq> [] \<and> list_all is_digit d1 \<and> list_all is_space ws \<and>
     d2 \<noteq> [] \<and> list_all is_digit d2)"

subsection \<open>Responses\<close>

text \<open>
  What an awaited query of the store client resolves to: \<^verbatim>\<open>{ data, error }\<close>.
  A failed query has no data and an error.
\<close>

datatype 'a pg_response = PgResponse (data: "'a option") (error: "string option")

text \<open>
  The HTTP response of a handler: the status code (200 when the code gives none)
  and the JSON body, either \<^verbatim>\<open>{ error: message }\<close> or the payload.
\<close>

datatype 'a json_body = ErrorBody string | OkBody 'a

datatype 'a response = Response (status_code: nat) (body: "'a json_body")

text \<open>
  A field of the JSON body as the handlers test it: \<^verbatim>\<open>!field\<close> holds for a
  missing field and for the empty string.
\<close>

definition truthy :: "string option \<Rightarrow> bool" where
  "truthy v = (case v of None \<Rightarrow> False | Some s \<Rightarrow> s \<noteq> [])"

subsection \<open>The flight catalog and its queries\<close>

text \<open>
  The interfaces \<^verbatim>\<open>Flight\<close> and \<^verbatim>\<open>RouteOption\<close>. The field \<^verbatim>\<open>id\<close> is
  \<open>flight_uid\<close> here and \<^verbatim>\<open>type\<close> is \<open>rtype\<close>, the names being taken in HOL.
\<close>

record flight =
  flight_uid :: string
  flight_number :: string
  airline_name :: string
  departure_datetime :: int
  arrival_datetime :: int
  origin :: string
  destination :: string

datatype route_type = Direct | Transit

record route_option =
  rtype :: route_type
  flights :: "flight list"
  total_duration :: string

text \<open>
  The three queries of the handler have one shape: \<^verbatim>\<open>.eq('origin', o)\<close>,
  \<^verbatim>\<open>.eq('destination', d)\<close> or \<^verbatim>\<open>.neq('destination', d)\<close>,
  \<^verbatim>\<open>.gte('departure_datetime', a)\<close>, \<^verbatim>\<open>.lt('departure_datetime', b)\<close>,
  \<^verbatim>\<open>.order('departure_datetime')\<close> and, for the second hop, \<^verbatim>\<open>.limit(3)\<close>.
\<close>

datatype destination_filter = DestEq string | DestNeq string

record flight_query =
  eq_origin :: string
  on_destination :: destination_filter
  gte_departure :: int
  lt_departure :: int
  limit_rows :: "nat option"

type_synonym flight_store = "flight_query \<Rightarrow> flight list pg_response"

fun destination_ok :: "destination_filter \<Rightarrow> string \<Rightarrow> bool" where
  "destination_ok (DestEq d) x = (x = d)"
| "destination_ok (DestNeq d) x = (x \<noteq> d)"

definition selects :: "flight_query \<Rightarrow> flight \<Rightarrow> bool" where
  "selects q f =
     (origin f = eq_origin q \<and> destination_ok (on_destination q) (destination f) \<and>
      gte_departure q \<le> departure_datetime f \<and> departure_datetime f < lt_departure q)"

text \<open>
  A store that answers from a catalog (the rows of the table \<^verbatim>\<open>flights\<close>): the
  selected rows ordered by departure, rows of equal departure in the order of the
  table, cut at the limit.
\<close>

definition run_query :: "flight list \<Rightarrow> flight_query \<Rightarrow> flight list" where
  "run_query catalog q =
     (let rows = sort_key departure_datetime (filter (selects q) catalog)
      in case limit_rows q of None \<Rightarrow> rows | Some n \<Rightarrow> take n rows)"

definition catalog_store :: "flight list \<Rightarrow> flight_store" where
  "catalog_store catalog q = PgResponse (Some (run_query catalog q)) None"

text \<open>A store whose every query fails.\<close>

definition failing_store :: flight_store where
  "failing_store q = PgResponse None (Some ''fetch failed'')"

subsection \<open>The route search (get-routes)\<close>

definition day_ms :: int where
  "day_ms = 24 * 60 * 60 * 1000"

definition direct_query :: "string \<Rightarrow> string \<Rightarrow> int \<Rightarrow> flight_query" where
  "direct_query orig dest departureStart =
     \<lparr>eq_origin = orig, on_destination = DestEq dest,
      gte_departure = departureStart, lt_departure = departureStart + day_ms,
      limit_rows = None\<rparr>"

definition first_hop_query :: "string \<Rightarrow> string \<Rightarrow> int \<Rightarrow> flight_query" where
  "first_hop_query orig dest departureStart =
     \<lparr>eq_origin = orig, on_destination = DestNeq dest,
      gte_departure = departureStart, lt_departure = departureStart + day_ms,
      limit_rows = None\<rparr>"

definition second_hop_query :: "string \<Rightarrow> flight \<Rightarrow> flight_query" where
  "second_hop_query dest firstFlight =
     \<lparr>eq_origin = destination firstFlight, on_destination = DestEq dest,
      gte_departure = arrival_datetime firstFlight,
      lt_departure = arrival_datetime firstFlight + 2 * day_ms,
      limit_rows = Some 3\<rparr>"

definition direct_route :: "flight \<Rightarrow> route_option" where
  "direct_route f =
     \<lparr>rtype = Direct, flights = [f],
      total_duration = calculateDuration (departure_datetime f) (arrival_datetime f)\<rparr>"

definition layoverHours :: "flight \<Rightarrow> flight \<Rightarrow> rat" where
  "layoverHours firstFlight secondFlight =
     of_int (departure_datetime secondFlight - arrival_datetime firstFlight) / (1000 * 60 * 60)"

definition transit_route :: "flight \<Rightarrow> flight \<Rightarrow> route_option" where
  "transit_route firstFlight secondFlight =
     \<lparr>rtype = Transit, flights = [firstFlight, secondFlight],
      total_duration =
        calculateDuration (departure_datetime firstFlight) (arrival_datetime secondFlight)\<rparr>"

text \<open>The body of the loop over the first hops: the routes one first hop adds.\<close>

definition transit_routes_of :: "flight_store \<Rightarrow> string \<Rightarrow> flight \<Rightarrow> route_option list" where
  "transit_routes_of store dest firstFlight =
     (case data (store (second_hop_query dest firstFlight)) of
        None \<Rightarrow> []
      | Some secondHopFlights \<Rightarrow>
          map (transit_route firstFlight)
            (filter (\<lambda>secondFlight. layoverHours firstFlight secondFlight \<ge> 2) secondHopFlights))"

definition direct_routes :: "flight_store \<Rightarrow> string \<Rightarrow> string \<Rightarrow> int \<Rightarrow> route_option list" where
  "direct_routes store orig dest departureStart =
     (case data (store (direct_query orig dest departureStart)) of
        None \<Rightarrow> []
      | Some directFlights \<Rightarrow> map direct_route directFlights)"

definition transit_routes :: "flight_store \<Rightarrow> string \<Rightarrow> string \<Rightarrow> int \<Rightarrow> route_option list" where
  "transit_routes store orig dest departureStart =
     (case data (store (first_hop_query orig dest departureStart)) of
        None \<Rightarrow> []
      | Some firstHopFlights \<Rightarrow> concat (map (transit_routes_of store dest) firstHopFlights))"

text \<open>The key of \<^verbatim>\<open>routes.sort\<close>; the sort of the runtime is stable.\<close>

definition sort_minutes :: "route_option \<Rightarrow> int" where
  "sort_minutes r = parseDuration (total_duration r)"

definition find_routes :: "flight_store \<Rightarrow> string \<Rightarrow> string \<Rightarrow> int \<Rightarrow> route_option list" where
  "find_routes store orig dest departureStart =
     sort_key sort_minutes
       (direct_routes store orig dest departureStart @
        transit_routes store orig dest departureStart)"

text \<open>
  \<^verbatim>\<open>departure_date\<close> as \<^verbatim>\<open>new Date(departure_date)\<close> reads it: a missing or
  empty field, a string that is no date (\<^verbatim>\<open>toISOString\<close> then throws, and the
  \<^verbatim>\<open>catch\<close> answers), or an instant.
\<close>

datatype date_field = NoDate | InvalidDate | Instant int

record route_request =
  origin_field :: "string option"
  destination_field :: "string option"
  departure_date :: date_field

definition get_routes :: "flight_store \<Rightarrow> route_request \<Rightarrow> route_option list response" where
  "get_routes store req =
     (case (origin_field req, destination_field req, departure_date req) of
        (Some orig, Some dest, Instant departureStart) \<Rightarrow>
          if orig = [] \<or> dest = [] then Response 400 (ErrorBody ''Missing required parameters'')
          else Response 200 (OkBody (find_routes store orig dest departureStart))
      | (Some orig, Some dest, InvalidDate) \<Rightarrow>
          if orig = [] \<or> dest = [] then Response 400 (ErrorBody ''Missing required parameters'')
          else Response 500 (ErrorBody ''Internal server error'')
      | _ \<Rightarrow> Response 400 (ErrorBody ''Missing required parameters''))"

subsection \<open>Bookings, their events and the store\<close>

text \<open>
  The rows of the tables \<^verbatim>\<open>bookings\<close> and \<^verbatim>\<open>booking_events\<close>. The column
  \<^verbatim>\<open>status\<close> is text, checked by the table to be one of the five states. The
  columns \<^verbatim>\<open>id\<close> are \<open>booking_uid\<close> and \<open>event_uid\<close>, the columns
  \<^verbatim>\<open>origin\<close> and \<^verbatim>\<open>destination\<close> of a booking carry its name in front, and the
  column \<^verbatim>\<open>notes\<close> is \<open>event_notes\<close>.
\<close>

record booking =
  booking_uid :: string
  ref_id :: string
  booking_origin :: string
  booking_destination :: string
  pieces :: int
  weight_kg :: int
  status :: string
  user_id :: "string option"
  created_at :: int
  updated_at :: int

record booking_event =
  event_uid :: string
  booking_id :: string
  event_type :: string
  location :: "string option"
  flight_id :: "string option"
  event_notes :: "string option"
  event_created_at :: int

record database =
  bookings :: "booking list"
  booking_events :: "booking_event list"

text \<open>
  What the store decides during one request: the clock and the fresh identifier
  of the trigger's insert, and for each of the four calls of the handler whether
  the store carries it out (it may be unreachable, or reject the operation, as
  a row-level security policy does).
\<close>

record store_env =
  now :: int
  fresh_uid :: string
  select_booking_ok :: bool
  update_booking_ok :: bool
  select_event_ok :: bool
  update_event_ok :: bool

text \<open>
  \<^verbatim>\<open>.from('bookings').select('*').eq('ref_id', ref_id).single()\<close>: an error
  unless exactly one row is selected.
\<close>

definition select_booking :: "store_env \<Rightarrow> database \<Rightarrow> string \<Rightarrow> booking pg_response" where
  "select_booking env db ref =
     (if \<not> select_booking_ok env then PgResponse None (Some ''store error'')
      else case filter (\<lambda>b. ref_id b = ref) (bookings db) of
        [b] \<Rightarrow> PgResponse (Some b) None
      | _ \<Rightarrow> PgResponse None (Some ''JSON object requested, multiple (or no) rows returned''))"

text \<open>
  The trigger \<^verbatim>\<open>create_booking_event\<close> on an update: one event when the status
  changed, with the location the migration gives it.
\<close>

definition create_booking_event ::
  "store_env \<Rightarrow> booking \<Rightarrow> booking \<Rightarrow> booking_event list \<Rightarrow> booking_event list" where
  "create_booking_event env old new evs =
     (if status old \<noteq> status new then
        evs @ [\<lparr>event_uid = fresh_uid env, booking_id = booking_uid new,
                event_type = status new,
                location =
                  (if status new = ''DEPARTED'' then Some (booking_origin new)
                   else if status new = ''ARRIVED'' then Some (booking_destination new)
                   else if status new = ''DELIVERED'' then Some (booking_destination new)
                   else None),
                flight_id = None, event_notes = None, event_created_at = now env\<rparr>]
      else evs)"

text \<open>
  \<^verbatim>\<open>.from('bookings').update({ status }).eq('ref_id', ref_id).select().single()\<close>.
  A store that does not carry the update out changes nothing, and neither does an
  update that the table's check on \<^verbatim>\<open>status\<close> rejects. Otherwise the row gets
  the status, the trigger \<^verbatim>\<open>update_updated_at_column\<close> stamps it and the event
  trigger runs; without exactly one such row the call is an error and nothing is
  changed.
\<close>

definition update_booking ::
  "store_env \<Rightarrow> database \<Rightarrow> string \<Rightarrow> string \<Rightarrow> database \<times> booking pg_response" where
  "update_booking env db ref st =
     (if \<not> update_booking_ok env then (db, PgResponse None (Some ''store error''))
      else if st \<notin> set [''BOOKED'', ''DEPARTED'', ''ARRIVED'', ''DELIVERED'', ''CANCELLED''] then
        (db, PgResponse None (Some ''violates check constraint''))
      else case filter (\<lambda>b. ref_id b = ref) (bookings db) of
        [old] \<Rightarrow>
          let new = old\<lparr>status := st, updated_at := now env\<rparr>
          in (\<lparr>bookings = map (\<lambda>b. if ref_id b = ref then new else b) (bookings db),
               booking_events = create_booking_event env old new (booking_events db)\<rparr>,
              PgResponse (Some new) None)
      | _ \<Rightarrow> (db, PgResponse None (Some ''JSON object requested, multiple (or no) rows returned'')))"

text \<open>
  \<^verbatim>\<open>.from('booking_events').select('*').eq('booking_id', id)
  .order('created_at', { ascending: false }).limit(1).single()\<close>.
\<close>

definition select_latest_event ::
  "store_env \<Rightarrow> database \<Rightarrow> string \<Rightarrow> booking_event pg_response" where
  "select_latest_event env db bid =
     (if \<not> select_event_ok env then PgResponse None (Some ''store error'')
      else case sort_key (\<lambda>e. - event_created_at e)
                  (filter (\<lambda>e. booking_id e = bid) (booking_events db)) of
        [] \<Rightarrow> PgResponse None (Some ''JSON object requested, multiple (or no) rows returned'')
      | e # _ \<Rightarrow> PgResponse (Some e) None)"

text \<open>
  \<^verbatim>\<open>.from('booking_events').update({ notes, flight_id }).eq('id', id)\<close>; the
  handler does not read what the call resolves to.
\<close>

definition update_event ::
  "store_env \<Rightarrow> database \<Rightarrow> string \<Rightarrow> string option \<Rightarrow> string option \<Rightarrow> database" where
  "update_event env db eid new_notes new_flight =
     (if \<not> update_event_ok env then db
      else db\<lparr>booking_events :=
        map (\<lambda>e. if event_uid e = eid then e\<lparr>event_notes := new_notes, flight_id := new_flight\<rparr> else e)
          (booking_events db)\<rparr>)"

subsection \<open>The status change (update-booking-status)\<close>

definition validStatuses :: "string list" where
  "validStatuses = [''BOOKED'', ''DEPARTED'', ''ARRIVED'', ''DELIVERED'', ''CANCELLED'']"

definition validTransitions :: "(string \<times> string list) list" where
  "validTransitions =
     [(''BOOKED'', [''DEPARTED'', ''CANCELLED'']),
      (''DEPARTED'', [''ARRIVED'']),
      (''ARRIVED'', [''DELIVERED'']),
      (''DELIVERED'', []),
      (''CANCELLED'', [])]"

text \<open>\<^verbatim>\<open>table[current]?.includes(requested)\<close>: false for a key the table lacks.\<close>

definition allows :: "(string \<times> string list) list \<Rightarrow> string \<Rightarrow> string \<Rightarrow> bool" where
  "allows table current requested =
     (case map_of table current of None \<Rightarrow> False | Some targets \<Rightarrow> requested \<in> set targets)"

text \<open>\<^verbatim>\<open>a || b\<close> on two optional strings.\<close>

definition or_else :: "string option \<Rightarrow> string option \<Rightarrow> string option" where
  "or_else a b = (if truthy a then a else b)"

record status_request =
  ref_id_field :: "string option"
  status_field :: "string option"
  location_field :: "string option"
  notes_field :: "string option"
  flight_id_field :: "string option"

text \<open>
  The block under \<^verbatim>\<open>if (notes || flight_id)\<close>: the latest event of the booking
  is looked up and, if there is one, patched. Neither call's error is read.
\<close>

definition patch_latest_event ::
  "store_env \<Rightarrow> database \<Rightarrow> status_request \<Rightarrow> booking \<Rightarrow> database" where
  "patch_latest_event env db req updatedBooking =
     (case data (select_latest_event env db (booking_uid updatedBooking)) of
        None \<Rightarrow> db
      | Some latestEvent \<Rightarrow>
          update_event env db (event_uid latestEvent)
            (or_else (notes_field req) (event_notes latestEvent))
            (or_else (flight_id_field req) (flight_id latestEvent)))"

text \<open>
  The handler, with the transition table as a parameter: the handler of the
  source is \<open>update_booking_status\<close> below, at the table \<open>validTransitions\<close>.
  It returns the database after the request and the response; the body of a
  success is the message and \<^verbatim>\<open>updatedBooking\<close>. Reading
  \<^verbatim>\<open>updatedBooking.id\<close> of a missing booking throws, and the \<^verbatim>\<open>catch\<close>
  answers.
\<close>

definition update_booking_status_with ::
  "(string \<times> string list) list \<Rightarrow> store_env \<Rightarrow> database \<Rightarrow> status_request \<Rightarrow>
   database \<times> (string \<times> booking option) response" where
  "update_booking_status_with table env db req =
     (case (ref_id_field req, status_field req) of
        (Some ref, Some st) \<Rightarrow>
          if ref = [] \<or> st = [] then
            (db, Response 400 (ErrorBody ''Booking reference and status are required''))
          else if st \<notin> set validStatuses then
            (db, Response 400 (ErrorBody ''Invalid status''))
          else
            (case select_booking env db ref of
               PgResponse (Some currentBooking) None \<Rightarrow>
                 if \<not> allows table (status currentBooking) st then
                   (db, Response 400 (ErrorBody
                      (''Cannot change status from '' @ status currentBooking @ '' to '' @ st)))
                 else if st = ''CANCELLED'' \<and>
                         status currentBooking \<in> set [''ARRIVED'', ''DELIVERED''] then
                   (db, Response 400 (ErrorBody ''Cannot cancel booking that has already arrived''))
                 else
                   (case update_booking env db ref st of
                      (db1, PgResponse updatedBooking (Some updateError)) \<Rightarrow>
                        (db1, Response 500 (ErrorBody ''Failed to update booking status''))
                    | (db1, PgResponse updatedBooking None) \<Rightarrow>
                        if truthy (notes_field req) \<or> truthy (flight_id_field req) then
                          (case updatedBooking of
                             None \<Rightarrow> (db1, Response 500 (ErrorBody ''Internal server error''))
                           | Some b \<Rightarrow>
                               (patch_latest_event env db1 req b,
                                Response 200
                                  (OkBody (''Booking status updated successfully'',
                                           updatedBooking))))
                        else
                          (db1, Response 200
                             (OkBody (''Booking status updated successfully'', updatedBooking))))
             | _ \<Rightarrow> (db, Response 404 (ErrorBody ''Booking not found'')))
      | _ \<Rightarrow> (db, Response 400 (ErrorBody ''Booking reference and status are required'')))"

definition update_booking_status ::
  "store_env \<Rightarrow> database \<Rightarrow> status_request \<Rightarrow>
   database \<times> (string \<times> booking option) response" where
  "update_booking_status = update_booking_status_with validTransitions"

text \<open>
  What the request leaves in the database when the status update was carried out:
  the database after the update, patched when notes or a flight were given.
\<close>

definition after_update ::
  "store_env \<Rightarrow> database \<Rightarrow> status_request \<Rightarrow> booking \<Rightarrow> database" where
  "after_update env db1 req b =
     (if truthy (notes_field req) \<or> truthy (flight_id_field req)
      then patch_latest_event env db1 req b else db1)"

subsection \<open>Measures and sample data used in the statements\<close>

text \<open>
  The time a route takes: from the departure of its first flight to the arrival
  of its last (or only) flight, in milliseconds.
\<close>

definition elapsed_ms :: "route_option \<Rightarrow> int" where
  "elapsed_ms r = arrival_datetime (last (flights r)) - departure_datetime (hd (flights r))"

text \<open>
  Flights in the manner of the migration's sample rows, with instants counted
  from the start of the day of the query: Delhi to Mumbai 06:00 to 08:30, four
  flights Mumbai to Bangalore, and a row whose arrival lies before its departure
  (the table has no check that forbids it).
\<close>

definition sample_flight :: "string \<Rightarrow> string \<Rightarrow> string \<Rightarrow> int \<Rightarrow> int \<Rightarrow> flight" where
  "sample_flight number from to dep arr =
     \<lparr>flight_uid = number, flight_number = number, airline_name = ''Air India'',
      departure_datetime = dep, arrival_datetime = arr, origin = from, destination = to\<rparr>"

definition del_bom :: flight where
  "del_bom = sample_flight ''AI101'' ''DEL'' ''BOM'' 21600000 30600000"

definition bom_blr_1 :: flight where
  "bom_blr_1 = sample_flight ''AI401'' ''BOM'' ''BLR'' 38700000 45000000"

definition bom_blr_2 :: flight where
  "bom_blr_2 = sample_flight ''6E502'' ''BOM'' ''BLR'' 48600000 54900000"

definition bom_blr_3 :: flight where
  "bom_blr_3 = sample_flight ''SG603'' ''BOM'' ''BLR'' 67500000 73800000"

definition bom_blr_4 :: flight where
  "bom_blr_4 = sample_flight ''AI405'' ''BOM'' ''BLR'' 79200000 85500000"

definition del_blr_back :: flight where
  "del_blr_back = sample_flight ''AI701'' ''DEL'' ''BLR'' 36000000 27000000"

definition sample_catalog :: "flight list" where
  "sample_catalog = [del_bom, bom_blr_1, bom_blr_2, bom_blr_3, bom_blr_4]"

text \<open>
  A catalog with a direct flight Delhi to Bangalore, 06:00 to 12:30, that takes as
  long as the first connection through Mumbai; and a catalog of three direct
  flights of which the first arrives 2 h 30 min before it departs, the second
  takes 30 min and the third arrives 1 h before it departs.
\<close>

definition del_blr :: flight where
  "del_blr = sample_flight ''AI777'' ''DEL'' ''BLR'' 21600000 45000000"

definition tie_catalog :: "flight list" where
  "tie_catalog = [del_bom, bom_blr_1, bom_blr_2, del_blr]"

definition del_blr_short :: flight where
  "del_blr_short = sample_flight ''6E802'' ''DEL'' ''BLR'' 39600000 41400000"

definition del_blr_back_1h :: flight where
  "del_blr_back_1h = sample_flight ''SG909'' ''DEL'' ''BLR'' 46800000 43200000"

definition backward_catalog :: "flight list" where
  "backward_catalog = [del_blr_back, del_blr_short, del_blr_back_1h]"

text \<open>A booking as created, its \<^verbatim>\<open>CREATED\<close> event, and requests for it.\<close>

definition sample_booking :: booking where
  "sample_booking =
     \<lparr>booking_uid = ''b1'', ref_id = ''ACB123456'', booking_origin = ''DEL'',
      booking_destination = ''BLR'', pieces = 2, weight_kg = 10, status = ''BOOKED'',
      user_id = None, created_at = 0, updated_at = 0\<rparr>"

definition sample_event :: booking_event where
  "sample_event =
     \<lparr>event_uid = ''e1'', booking_id = ''b1'', event_type = ''CREATED'',
      location = Some ''DEL'', flight_id = None, event_notes = None, event_created_at = 0\<rparr>"

definition sample_db :: database where
  "sample_db = \<lparr>bookings = [sample_booking], booking_events = [sample_event]\<rparr>"

definition arrived_db :: database where
  "arrived_db =
     \<lparr>bookings = [sample_booking\<lparr>status := ''ARRIVED''\<rparr>], booking_events = [sample_event]\<rparr>"

definition sample_env :: store_env where
  "sample_env =
     \<lparr>now = 1000, fresh_uid = ''e2'', select_booking_ok = True, update_booking_ok = True,
      select_event_ok = True, update_event_ok = True\<rparr>"

definition delivered_db :: database where
  "delivered_db =
     \<lparr>bookings = [sample_booking\<lparr>status := ''DELIVERED''\<rparr>], booking_events = [sample_event]\<rparr>"

text \<open>A store that does not carry out the update of a booking.\<close>

definition down_env :: store_env where
  "down_env = sample_env\<lparr>update_booking_ok := False\<rparr>"

text \<open>A store that rejects the update of an event.\<close>

definition blocked_env :: store_env where
  "blocked_env = sample_env\<lparr>update_event_ok := False\<rparr>"

definition sample_request :: "string \<Rightarrow> status_request" where
  "sample_request st =
     \<lparr>ref_id_field = Some ''ACB123456'', status_field = Some st, location_field = None,
      notes_field = Some ''Loaded'', flight_id_field = None\<rparr>"

section \<open>Properties of the duration functions\<close>

subsection \<open>Hours, minutes and decimal digits\<close>

lemma duration_hours_div: "duration_hours d = d div 3600000"
proof -
  have "(of_int d :: rat) / (1000 * 60 * 60) = of_int d / of_int 3600000" by simp
  then show ?thesis unfolding duration_hours_def by (simp only: floor_divide_of_int_eq)
qed

lemma js_rem_nonneg: "0 \<le> a \<Longrightarrow> 0 < b \<Longrightarrow> js_rem a b = a mod b"
  by (cases "a = 0") (simp_all add: js_rem_def)

lemma js_rem_neg: "a < 0 \<Longrightarrow> 0 < b \<Longrightarrow> js_rem a b = - ((- a) mod b)"
  by (simp add: js_rem_def)

lemma duration_minutes_div: "duration_minutes d = js_rem d 3600000 div 60000"
proof -
  have "(of_int (js_rem d (1000 * 60 * 60)) :: rat) / (1000 * 60) = of_int (js_rem d 3600000) / of_int 60000" by simp
  then show ?thesis unfolding duration_minutes_def by (simp only: floor_divide_of_int_eq)
qed

lemma is_digit_digit_char: "d < 10 \<Longrightarrow> is_digit (digit_char d)"
  by (simp add: is_digit_def digit_char_def)

lemma digits_of_all_digits: "list_all is_digit (digits_of n)"
proof (induction n rule: digits_of.induct)
  case (1 n)
  show ?case
  proof (cases "n < 10")
    case True
    then show ?thesis by (subst digits_of.simps) (simp add: is_digit_digit_char)
  next
    case False
    with 1 show ?thesis by (subst digits_of.simps) (simp add: is_digit_digit_char)
  qed
qed

lemma digits_of_nonempty: "digits_of n \<noteq> []"
  by (subst digits_of.simps) simp

lemma parseInt_snoc: "parseInt (ds @ [c]) = parseInt ds * 10 + (int (of_char c) - 48)"
  by (simp add: parseInt_def)

lemma of_char_digit_char: "d < 10 \<Longrightarrow> int (of_char (digit_char d)) - 48 = int d"
  by (simp add: digit_char_def)

lemma parseInt_digits_of: "parseInt (digits_of n) = int n"
proof (induction n rule: digits_of.induct)
  case (1 n)
  show ?case
  proof (cases "n < 10")
    case True
    then show ?thesis by (subst digits_of.simps) (simp add: parseInt_def of_char_digit_char)
  next
    case False
    with 1 have "parseInt (digits_of (n div 10)) = int (n div 10)" by simp
    with False show ?thesis
      by (subst digits_of.simps) (simp add: parseInt_snoc of_char_digit_char, arith)
  qed
qed

lemma takeWhile_run: "list_all P ds \<Longrightarrow> \<not> P c \<Longrightarrow> takeWhile P (ds @ c # r) = ds"
  by (induction ds) simp_all

lemma dropWhile_run: "list_all P ds \<Longrightarrow> \<not> P c \<Longrightarrow> dropWhile P (ds @ c # r) = c # r"
  by (induction ds) simp_all

lemma not_digit_h: "\<not> is_digit CHR ''h''" by (simp add: is_digit_def)
lemma not_digit_m: "\<not> is_digit CHR ''m''" by (simp add: is_digit_def)
lemma not_digit_minus: "\<not> is_digit CHR ''-''" by (simp add: is_digit_def)
lemma not_digit_blank: "\<not> is_digit CHR '' ''" by (simp add: is_digit_def)
lemma not_space_minus: "\<not> is_space CHR ''-''" by (simp add: is_space_def)
lemma is_space_blank: "is_space CHR '' ''" by (simp add: is_space_def)
lemma digit_not_space: "is_digit c \<Longrightarrow> \<not> is_space c"
  by (auto simp: is_digit_def is_space_def)

lemma match_at_pattern:
  assumes "d1 \<noteq> []" "list_all is_digit d1" "list_all is_space ws"
    and "d2 \<noteq> []" "list_all is_digit d2"
  shows "match_at (d1 @ ''h'' @ ws @ d2 @ ''m'' @ post) = Some (d1, d2)"
proof -
  let ?r2 = "ws @ d2 @ ''m'' @ post"
  have a: "takeWhile is_digit (d1 @ CHR ''h'' # ?r2) = d1"
    using assms(2) not_digit_h by (rule takeWhile_run)
  have b: "dropWhile is_digit (d1 @ CHR ''h'' # ?r2) = CHR ''h'' # ?r2"
    using assms(2) not_digit_h by (rule dropWhile_run)
  obtain x xs where d2: "d2 = x # xs" using assms(4) by (cases d2) auto
  with assms(5) have "\<not> is_space x" by (simp add: digit_not_space)
  then have c: "dropWhile is_space ?r2 = d2 @ ''m'' @ post"
    using dropWhile_run [OF assms(3), of x "xs @ ''m'' @ post"] d2 by simp
  have d: "takeWhile is_digit (d2 @ CHR ''m'' # post) = d2"
    using assms(5) not_digit_m by (rule takeWhile_run)
  have e: "dropWhile is_digit (d2 @ CHR ''m'' # post) = CHR ''m'' # post"
    using assms(5) not_digit_m by (rule dropWhile_run)
  show ?thesis
    unfolding match_at_def using a b c d e assms(1,4) by (simp add: Let_def)
qed

lemma match_at_sound:
  assumes "match_at s = Some (d1, d2)"
  shows "\<exists>ws post. s = d1 @ ''h'' @ ws @ d2 @ ''m'' @ post \<and>
     d1 \<noteq> [] \<and> list_all is_digit d1 \<and> list_all is_space ws \<and>
     d2 \<noteq> [] \<and> list_all is_digit d2"
proof -
  define r2 where "r2 = tl (dropWhile is_digit s)"
  define r3 where "r3 = dropWhile is_space r2"
  from assms have 1: "takeWhile is_digit s = d1" "d1 \<noteq> []"
    and 2: "dropWhile is_digit s = CHR ''h'' # r2"
    and 3: "takeWhile is_digit r3 = d2" "d2 \<noteq> []"
    and 4: "\<exists>post. dropWhile is_digit r3 = CHR ''m'' # post"
    unfolding match_at_def r2_def r3_def
    by (auto simp: Let_def split: if_splits list.splits)
  from 4 obtain post where 5: "dropWhile is_digit r3 = CHR ''m'' # post" by blast
  have "s = takeWhile is_digit s @ dropWhile is_digit s" by simp
  also have "\<dots> = d1 @ CHR ''h'' # r2" using 1 2 by simp
  also have "r2 = takeWhile is_space r2 @ r3" by (simp add: r3_def)
  also have "r3 = takeWhile is_digit r3 @ dropWhile is_digit r3" by simp
  also have "\<dots> = d2 @ CHR ''m'' # post" using 3 5 by simp
  finally have "s = d1 @ ''h'' @ takeWhile is_space r2 @ d2 @ ''m'' @ post" by simp
  moreover have "list_all is_digit d1" using 1(1) by (auto simp: list_all_iff dest: set_takeWhileD)
  moreover have "list_all is_digit d2" using 3(1) by (auto simp: list_all_iff dest: set_takeWhileD)
  moreover have "list_all is_space (takeWhile is_space r2)" by (auto simp: list_all_iff dest: set_takeWhileD)
  ultimately show ?thesis using 1(2) 3(2) by blast
qed

lemma regex_match_sound: "regex_match s = Some m \<Longrightarrow> has_match s"
proof (induction s)
  case Nil
  then show ?case by simp
next
  case (Cons c cs)
  show ?case
  proof (cases "match_at (c # cs)")
    case None
    with Cons have "has_match cs" by simp
    then obtain pre d1 ws d2 post where
      "cs = pre @ d1 @ ''h'' @ ws @ d2 @ ''m'' @ post \<and>
       d1 \<noteq> [] \<and> list_all is_digit d1 \<and> list_all is_space ws \<and>
       d2 \<noteq> [] \<and> list_all is_digit d2"
      unfolding has_match_def by blast
    then have "c # cs = (c # pre) @ d1 @ ''h'' @ ws @ d2 @ ''m'' @ post \<and>
       d1 \<noteq> [] \<and> list_all is_digit d1 \<and> list_all is_space ws \<and>
       d2 \<noteq> [] \<and> list_all is_digit d2" by simp
    then show ?thesis unfolding has_match_def by blast
  next
    case (Some p)
    obtain d1 d2 where "p = (d1, d2)" by (cases p)
    with Some match_at_sound [of "c # cs" d1 d2]
    obtain ws post where "c # cs = [] @ d1 @ ''h'' @ ws @ d2 @ ''m'' @ post \<and>
       d1 \<noteq> [] \<and> list_all is_digit d1 \<and> list_all is_space ws \<and>
       d2 \<noteq> [] \<and> list_all is_digit d2" by auto
    then show ?thesis unfolding has_match_def by blast
  qed
qed

lemma regex_match_complete_aux:
  assumes "d1 \<noteq> []" "list_all is_digit d1" "list_all is_space ws"
    and "d2 \<noteq> []" "list_all is_digit d2"
  shows "regex_match (pre @ d1 @ ''h'' @ ws @ d2 @ ''m'' @ post) \<noteq> None"
proof (induction pre)
  case Nil
  obtain x xs where "d1 = x # xs" using assms(1) by (cases d1) auto
  then show ?case using match_at_pattern [OF assms, of post] by simp
next
  case (Cons c pre)
  then show ?case by (simp split: option.splits)
qed

lemma regex_match_complete: "has_match s \<Longrightarrow> regex_match s \<noteq> None"
  unfolding has_match_def using regex_match_complete_aux by blast

lemma regex_match_None_iff: "regex_match s = None \<longleftrightarrow> \<not> has_match s"
proof
  assume "regex_match s = None"
  then show "\<not> has_match s" using regex_match_complete by blast
next
  assume "\<not> has_match s"
  then show "regex_match s = None" using regex_match_sound by (cases "regex_match s") blast+
qed

lemma match_at_Nil: "match_at [] = None"
  by (simp add: match_at_def)

lemma regex_match_at_start: "match_at s = Some m \<Longrightarrow> regex_match s = Some m"
  by (cases s) (simp_all add: match_at_Nil)

lemma match_at_no_digit: "\<not> is_digit c \<Longrightarrow> match_at (c # r) = None"
  by (simp add: match_at_def)

lemma regex_match_skip: "\<not> is_digit c \<Longrightarrow> regex_match (c # r) = regex_match r"
  by (simp add: match_at_no_digit)

lemma regex_match_run:
  assumes "list_all is_digit ds"
    and "\<And>ds'. ds' \<noteq> [] \<Longrightarrow> list_all is_digit ds' \<Longrightarrow> match_at (ds' @ r) = None"
  shows "regex_match (ds @ r) = regex_match r"
  using assms(1)
proof (induction ds)
  case Nil
  then show ?case by simp
next
  case (Cons d ds)
  have "match_at ((d # ds) @ r) = None" using Cons.prems by (intro assms(2)) simp_all
  with Cons show ?case by simp
qed

lemma match_at_run_h_minus:
  assumes "ds \<noteq> []" "list_all is_digit ds"
  shows "match_at (ds @ ''h -'' @ r) = None"
proof -
  have a: "takeWhile is_digit (ds @ CHR ''h'' # ''-'' @ r) = ds"
    using assms(2) not_digit_h by (rule takeWhile_run)
  have b: "dropWhile is_digit (ds @ CHR ''h'' # '' -'' @ r) = CHR ''h'' # '' -'' @ r"
    using assms(2) not_digit_h by (rule dropWhile_run)
  show ?thesis unfolding match_at_def using b
    by (simp add: Let_def is_space_blank not_space_minus not_digit_minus)
qed

lemma match_at_run_m:
  assumes "ds \<noteq> []" "list_all is_digit ds"
  shows "match_at (ds @ ''m'') = None"
proof -
  have b: "dropWhile is_digit (ds @ CHR ''m'' # []) = CHR ''m'' # []"
    using assms(2) not_digit_m by (rule dropWhile_run)
  show ?thesis unfolding match_at_def using b by (simp add: Let_def)
qed

lemma regex_match_negative:
  assumes "list_all is_digit h" "list_all is_digit m"
  shows "regex_match (CHR ''-'' # h @ ''h -'' @ m @ ''m'') = None"
proof -
  have "regex_match (CHR ''-'' # h @ ''h -'' @ m @ ''m'') = regex_match (h @ ''h -'' @ m @ ''m'')"
    by (rule regex_match_skip [OF not_digit_minus])
  also have "\<dots> = regex_match (''h -'' @ m @ ''m'')"
    using assms(1) match_at_run_h_minus by (rule regex_match_run)
  also have "\<dots> = regex_match (CHR ''h'' # CHR '' '' # CHR ''-'' # (m @ ''m''))"
    by simp
  also have "\<dots> = regex_match (m @ ''m'')"
    by (simp only: regex_match_skip [OF not_digit_h] regex_match_skip [OF not_digit_blank]
          regex_match_skip [OF not_digit_minus])
  also have "\<dots> = regex_match ''m''"
    using assms(2) match_at_run_m by (rule regex_match_run)
  also have "\<dots> = None"
    by (simp add: match_at_no_digit not_digit_m)
  finally show ?thesis .
qed

lemma show_int_nonneg: "0 \<le> i \<Longrightarrow> show_int i = digits_of (nat i)"
  by (simp add: show_int_def)

lemma show_int_neg: "i < 0 \<Longrightarrow> show_int i = CHR ''-'' # digits_of (nat (- i))"
  by (simp add: show_int_def)

lemma calculateDuration_nonneg:
  assumes "start \<le> end_t"
  shows "calculateDuration start end_t =
           digits_of (nat ((end_t - start) div 3600000)) @ ''h '' @
           digits_of (nat (((end_t - start) mod 3600000) div 60000)) @ ''m''"
proof -
  let ?d = "end_t - start"
  have d: "0 \<le> ?d" using assms by simp
  have h: "0 \<le> ?d div 3600000" using d by (simp add: pos_imp_zdiv_nonneg_iff)
  have r: "js_rem ?d 3600000 = ?d mod 3600000" using d by (simp add: js_rem_nonneg)
  have m: "0 \<le> (?d mod 3600000) div 60000" by (simp add: pos_imp_zdiv_nonneg_iff)
  show ?thesis
    unfolding calculateDuration_def Let_def duration_hours_div duration_minutes_div r
    by (simp only: show_int_nonneg [OF h] show_int_nonneg [OF m])
qed

lemma parseDuration_digits:
  "parseDuration (digits_of a @ ''h '' @ digits_of b @ ''m'') = int a * 60 + int b"
proof -
  have "match_at (digits_of a @ ''h'' @ '' '' @ digits_of b @ ''m'' @ []) = Some (digits_of a, digits_of b)"
    by (rule match_at_pattern) (simp_all add: digits_of_nonempty digits_of_all_digits is_space_blank)
  then have "regex_match (digits_of a @ ''h '' @ digits_of b @ ''m'') = Some (digits_of a, digits_of b)"
    by (intro regex_match_at_start) simp
  then show ?thesis by (simp add: parseDuration_def parseInt_digits_of)
qed

lemma parseDuration_nonneg:
  assumes "start \<le> end_t"
  shows "parseDuration (calculateDuration start end_t) =
           (end_t - start) div 3600000 * 60 + ((end_t - start) mod 3600000) div 60000"
proof -
  have h: "0 \<le> (end_t - start) div 3600000" using assms by (simp add: pos_imp_zdiv_nonneg_iff)
  have m: "0 \<le> ((end_t - start) mod 3600000) div 60000" by (simp add: pos_imp_zdiv_nonneg_iff)
  show ?thesis
    unfolding calculateDuration_nonneg [OF assms] parseDuration_digits using h m by simp
qed

lemma hours_minutes_eq: "(d::int) div 3600000 * 60 + (d mod 3600000) div 60000 = d div 60000"
proof -
  have "d div 60000 = (3600000 * (d div 3600000) + d mod 3600000) div 60000" by simp
  also have "\<dots> = (60000 * (60 * (d div 3600000)) + d mod 3600000) div 60000" by simp
  also have "\<dots> = 60 * (d div 3600000) + (d mod 3600000) div 60000"
    by (simp only: div_mult_self2 [of 60000] add.commute)
  finally show ?thesis by simp
qed

lemma calculateDuration_negative:
  assumes "end_t < start" "\<not> 3600000 dvd (end_t - start)"
  shows "\<exists>h m. list_all is_digit h \<and> list_all is_digit m \<and>
           calculateDuration start end_t = CHR ''-'' # h @ ''h -'' @ m @ ''m''"
proof -
  define d where "d = end_t - start"
  have d: "d < 0" using assms(1) by (simp add: d_def)
  have h: "d div 3600000 < 0" using d by (simp add: neg_imp_zdiv_neg_iff)
  have "\<not> 3600000 dvd d" using assms(2) unfolding d_def .
  then have "\<not> 3600000 dvd (- d)" by (simp only: dvd_minus_iff not_False_eq_True)
  then have nz: "(- d) mod 3600000 \<noteq> 0" by (simp only: dvd_eq_mod_eq_0 not_False_eq_True)
  have "0 \<le> (- d) mod 3600000" by simp
  with nz have pos: "0 < (- d) mod 3600000" by linarith
  have r: "js_rem d 3600000 = - ((- d) mod 3600000)" using d by (rule js_rem_neg) simp
  have m: "js_rem d 3600000 div 60000 < 0" unfolding r using pos by (simp add: neg_imp_zdiv_neg_iff)
  have "calculateDuration start end_t =
      show_int (d div 3600000) @ ''h '' @ show_int (js_rem d 3600000 div 60000) @ ''m''"
    unfolding calculateDuration_def Let_def duration_hours_div duration_minutes_div d_def ..
  also have "\<dots> = CHR ''-'' # digits_of (nat (- (d div 3600000))) @ ''h -'' @
      digits_of (nat (- (js_rem d 3600000 div 60000))) @ ''m''"
    by (simp only: show_int_neg [OF h] show_int_neg [OF m]) simp
  finally show ?thesis using digits_of_all_digits by blast
qed

lemma parseDuration_negative:
  assumes "end_t < start" "\<not> 3600000 dvd (end_t - start)"
  shows "parseDuration (calculateDuration start end_t) = 0"
proof -
  from calculateDuration_negative [OF assms] obtain h m where
    "list_all is_digit h" "list_all is_digit m"
    "calculateDuration start end_t = CHR ''-'' # h @ ''h -'' @ m @ ''m''" by blast
  then show ?thesis using regex_match_negative [of h m] by (simp add: parseDuration_def)
qed

lemma sort_key_zero_first:
  assumes "i < length xs" "j < length xs" "sorted (map f xs)"
    and "f (xs ! i) = (0::int)" "0 < f (xs ! j)"
  shows "i < j"
proof (rule ccontr)
  assume "\<not> i < j"
  then have "j \<le> i" by simp
  with assms(1,3) have "map f xs ! j \<le> map f xs ! i"
    by (intro sorted_nth_mono) simp_all
  with assms show False by simp
qed

text \<open>
  Claim C10, as amended. For \<open>a \<le> b\<close> the parsed duration of
  \<open>calculateDuration a b\<close> is the floor of the hours times 60 plus the floor of
  the left-over minutes, that is the whole minutes of \<open>b - a\<close>. A string in which
  the pattern has no match parses to 0. When \<open>d < c\<close> and \<open>d - c\<close> is not a whole
  number of hours, \<open>calculateDuration c d\<close> is such a string and parses to 0. In a
  list sorted by the parsed duration, an element that parses to 0 stands before
  every element of positive parsed duration.
\<close>

theorem parseDuration_calculateDuration:
  "(a \<le> b \<longrightarrow>
      parseDuration (calculateDuration a b) =
        (b - a) div 3600000 * 60 + ((b - a) mod 3600000) div 60000 \<and>
      parseDuration (calculateDuration a b) = (b - a) div 60000) \<and>
   (\<not> has_match s \<longrightarrow> parseDuration s = 0) \<and>
   (d < c \<and> \<not> 3600000 dvd (d - c) \<longrightarrow>
      \<not> has_match (calculateDuration c d) \<and> parseDuration (calculateDuration c d) = 0) \<and>
   (i < length rs \<and> j < length rs \<and>
    sort_minutes (sort_key sort_minutes rs ! i) = 0 \<and>
    0 < sort_minutes (sort_key sort_minutes rs ! j) \<longrightarrow> i < j)"
proof (intro conjI impI)
  assume "a \<le> b"
  then show "parseDuration (calculateDuration a b) =
      (b - a) div 3600000 * 60 + ((b - a) mod 3600000) div 60000"
    by (rule parseDuration_nonneg)
  then show "parseDuration (calculateDuration a b) = (b - a) div 60000"
    by (simp only: hours_minutes_eq)
next
  assume "\<not> has_match s"
  then have "regex_match s = None" by (simp add: regex_match_None_iff)
  then show "parseDuration s = 0" by (simp add: parseDuration_def)
next
  assume neg: "d < c \<and> \<not> 3600000 dvd (d - c)"
  then obtain h m where hm: "list_all is_digit h" "list_all is_digit m"
    "calculateDuration c d = CHR ''-'' # h @ ''h -'' @ m @ ''m''"
    using calculateDuration_negative [of d c] by blast
  then have "regex_match (calculateDuration c d) = None"
    using regex_match_negative [of h m] by simp
  then show "\<not> has_match (calculateDuration c d)" using regex_match_None_iff by blast
  from neg show "parseDuration (calculateDuration c d) = 0"
    using parseDuration_negative [of d c] by blast
next
  assume h: "i < length rs \<and> j < length rs \<and>
    sort_minutes (sort_key sort_minutes rs ! i) = 0 \<and>
    0 < sort_minutes (sort_key sort_minutes rs ! j)"
  have "sorted (map sort_minutes (sort_key sort_minutes rs))" by (rule sorted_sort_key)
  with h show "i < j"
    using sort_key_zero_first [of i "sort_key sort_minutes rs" j sort_minutes] by simp
qed

lemma example_no_match: "\<not> has_match ''soon''"
proof -
  have "regex_match ''soon'' = None" by code_simp
  then show ?thesis using regex_match_None_iff by blast
qed

theorem parseDuration_calculateDuration_witness:
  "parseDuration (calculateDuration 0 23400000) = 390 \<and>
   parseDuration ''soon'' = 0 \<and>
   parseDuration (calculateDuration 5400000 0) = 0 \<and>
   sort_key sort_minutes
     [\<lparr>rtype = Direct, flights = [], total_duration = ''1h 0m''\<rparr>,
      \<lparr>rtype = Direct, flights = [], total_duration = ''-2h -30m''\<rparr>] =
     [\<lparr>rtype = Direct, flights = [], total_duration = ''-2h -30m''\<rparr>,
      \<lparr>rtype = Direct, flights = [], total_duration = ''1h 0m''\<rparr>] \<and>
   (0::nat) < 1"
proof -
  let ?rs = "[\<lparr>rtype = Direct, flights = [], total_duration = ''1h 0m''\<rparr>,
      \<lparr>rtype = Direct, flights = [], total_duration = ''-2h -30m''\<rparr>]"
  have k1: "sort_minutes \<lparr>rtype = Direct, flights = [], total_duration = ''1h 0m''\<rparr> = 60"
    unfolding sort_minutes_def by code_simp
  have k2: "sort_minutes \<lparr>rtype = Direct, flights = [], total_duration = ''-2h -30m''\<rparr> = 0"
    unfolding sort_minutes_def by code_simp
  have srt: "sort_key sort_minutes ?rs =
     [\<lparr>rtype = Direct, flights = [], total_duration = ''-2h -30m''\<rparr>,
      \<lparr>rtype = Direct, flights = [], total_duration = ''1h 0m''\<rparr>]"
    by (simp add: k1 k2)
  have neg: "(0::int) < 5400000 \<and> \<not> (3600000::int) dvd (0 - 5400000)" by simp
  note inst = parseDuration_calculateDuration
    [of 0 23400000 "''soon''" 0 5400000 0 ?rs 1]
  have "parseDuration (calculateDuration 0 23400000) = 390"
    using inst by simp
  moreover have "parseDuration ''soon'' = 0"
    using inst example_no_match by blast
  moreover have "parseDuration (calculateDuration 5400000 0) = 0"
    using inst neg by blast
  moreover have "(0::nat) < 1"
    using inst srt k1 k2 by simp
  ultimately show ?thesis using srt by blast
qed

text \<open>
  The claim as stated fails where the arrival is a whole number of hours before
  the departure: the minutes print as \<open>0\<close>, the pattern matches behind the minus
  sign, and the parsed duration is positive.
\<close>

theorem parseDuration_negative_hours_counterexample:
  "(0::int) < 3600000 \<and>
   calculateDuration 3600000 0 = ''-1h 0m'' \<and>
   parseDuration (calculateDuration 3600000 0) = 60"
  by code_simp

section \<open>Properties of the route search\<close>

lemmas sample_defs = sample_catalog_def del_bom_def bom_blr_1_def bom_blr_2_def bom_blr_3_def
  bom_blr_4_def sample_flight_def

lemma layoverHours_ge_2:
  "layoverHours a b \<ge> 2 \<longleftrightarrow> departure_datetime b - arrival_datetime a \<ge> 7200000"
proof -
  have "(2 \<le> (of_int (departure_datetime b - arrival_datetime a) :: rat) / (1000 * 60 * 60))
      = ((of_int 7200000 :: rat) \<le> of_int (departure_datetime b - arrival_datetime a))"
    by (simp add: le_divide_eq)
  also have "\<dots> = (7200000 \<le> departure_datetime b - arrival_datetime a)"
    by (simp only: of_int_le_iff)
  finally show ?thesis by (simp add: layoverHours_def)
qed

lemma data_catalog_store: "data (catalog_store catalog q) = Some (run_query catalog q)"
  by (simp add: catalog_store_def)

lemma set_run_query_subset:
  "x \<in> set (run_query catalog q) \<Longrightarrow> x \<in> set catalog \<and> selects q x"
  by (auto simp: run_query_def Let_def split: option.splits dest: in_set_takeD)

lemma set_run_query_unlimited:
  "limit_rows q = None \<Longrightarrow> set (run_query catalog q) = {x \<in> set catalog. selects q x}"
  by (auto simp: run_query_def)

lemma length_second_hop: "length (run_query catalog (second_hop_query dest f)) \<le> 3"
  by (simp add: run_query_def second_hop_query_def)

lemma run_query_second_hop:
  "run_query catalog (second_hop_query dest f) =
     take 3 (sort_key departure_datetime (filter (selects (second_hop_query dest f)) catalog))"
  by (simp add: run_query_def second_hop_query_def)

lemma sorted_take_le_rest:
  assumes "sorted (map f xs)" "x \<in> set (take n xs)" "y \<in> set xs" "y \<notin> set (take n xs)"
  shows "f x \<le> f y"
proof -
  from assms(3,4) have y: "y \<in> set (drop n xs)"
    by (metis Un_iff append_take_drop_id set_append)
  have "sorted (map f (take n xs) @ map f (drop n xs))"
    using assms(1) by (simp flip: map_append)
  then show ?thesis using assms(2) y by (auto simp: sorted_append)
qed

lemma set_find_routes:
  "set (find_routes store orig dest start) =
     set (direct_routes store orig dest start) \<union> set (transit_routes store orig dest start)"
  by (simp add: find_routes_def)

lemma transit_routes_of_catalog:
  "transit_routes_of (catalog_store catalog) dest a =
     map (transit_route a)
       (filter (\<lambda>b. departure_datetime b - arrival_datetime a \<ge> 7200000)
          (run_query catalog (second_hop_query dest a)))"
  by (simp add: transit_routes_of_def data_catalog_store layoverHours_ge_2)

lemma transit_routes_catalog:
  "transit_routes (catalog_store catalog) orig dest start =
     concat (map (transit_routes_of (catalog_store catalog) dest)
       (run_query catalog (first_hop_query orig dest start)))"
  by (simp add: transit_routes_def data_catalog_store)

lemma direct_routes_catalog:
  "direct_routes (catalog_store catalog) orig dest start =
     map direct_route (run_query catalog (direct_query orig dest start))"
  by (simp add: direct_routes_def data_catalog_store)

lemma length_transit_routes_of: "length (transit_routes_of (catalog_store catalog) dest a) \<le> 3"
proof -
  have "length (transit_routes_of (catalog_store catalog) dest a)
      \<le> length (run_query catalog (second_hop_query dest a))"
    by (simp add: transit_routes_of_catalog)
  then show ?thesis using length_second_hop [of catalog dest a] by linarith
qed

lemma length_concat_le:
  "(\<And>x. length (g x) \<le> n) \<Longrightarrow> length (concat (map g xs)) \<le> n * length xs"
proof (induction xs)
  case Nil
  then show ?case by simp
next
  case (Cons x xs)
  then have "length (g x) \<le> n" "length (concat (map g xs)) \<le> n * length xs" by simp_all
  then show ?case by simp
qed

lemma direct_routes_all_direct:
  "list_all (\<lambda>r. rtype r = Direct) (direct_routes store orig dest start)"
  by (auto simp: direct_routes_def direct_route_def list_all_iff split: option.splits)

lemma transit_routes_of_all_transit:
  "r \<in> set (transit_routes_of store dest a) \<Longrightarrow> rtype r = Transit"
  by (auto simp: transit_routes_of_def transit_route_def split: option.splits)

lemma transit_routes_all_transit:
  "list_all (\<lambda>r. rtype r = Transit) (transit_routes store orig dest start)"
  by (auto simp: transit_routes_def list_all_iff split: option.splits
      dest: transit_routes_of_all_transit)

lemma find_routes_cases:
  assumes "r \<in> set (find_routes store orig dest start)"
  shows "(\<exists>f. r = direct_route f) \<or> (\<exists>a b. layoverHours a b \<ge> 2 \<and> r = transit_route a b)"
  using assms
  by (auto simp: set_find_routes direct_routes_def transit_routes_def transit_routes_of_def
      split: option.splits)

lemma transit_in_find_routes:
  assumes "a \<in> set (run_query catalog (first_hop_query orig dest start))"
    and "b \<in> set (run_query catalog (second_hop_query dest a))"
    and "7200000 \<le> departure_datetime b - arrival_datetime a"
  shows "transit_route a b \<in> set (find_routes (catalog_store catalog) orig dest start)"
  using assms
  by (auto simp: set_find_routes transit_routes_catalog transit_routes_of_catalog)

lemma window_within_cap:
  assumes "length (filter (selects q) catalog) \<le> n" "limit_rows q = Some n"
    and "x \<in> set catalog" "selects q x"
  shows "x \<in> set (run_query catalog q)"
  using assms by (simp add: run_query_def)

lemma elapsed_direct: "elapsed_ms (direct_route f) = arrival_datetime f - departure_datetime f"
  by (simp add: elapsed_ms_def direct_route_def)

lemma elapsed_transit: "elapsed_ms (transit_route a b) = arrival_datetime b - departure_datetime a"
  by (simp add: elapsed_ms_def transit_route_def)

lemma total_duration_elapsed:
  assumes "(\<exists>f. r = direct_route f) \<or> (\<exists>a b. r = transit_route a b)"
  shows "flights r \<noteq> [] \<and>
    total_duration r =
      calculateDuration (departure_datetime (hd (flights r))) (arrival_datetime (last (flights r)))"
  using assms by (auto simp: direct_route_def transit_route_def)

lemma elapsed_nonneg:
  assumes r: "r \<in> set (find_routes store orig dest start)"
    and own: "\<forall>f \<in> set (flights r). departure_datetime f \<le> arrival_datetime f"
  shows "0 \<le> elapsed_ms r"
proof -
  from find_routes_cases [OF r] show ?thesis
  proof (elim disjE exE conjE)
    fix f assume e: "r = direct_route f"
    with own have "departure_datetime f \<le> arrival_datetime f" by (simp add: direct_route_def)
    then show ?thesis unfolding e by (simp add: elapsed_direct)
  next
    fix a b
    assume l: "layoverHours a b \<ge> 2" and e: "r = transit_route a b"
    from l have "7200000 \<le> departure_datetime b - arrival_datetime a"
      by (simp only: layoverHours_ge_2)
    moreover from own e have "departure_datetime a \<le> arrival_datetime a"
      "departure_datetime b \<le> arrival_datetime b" by (simp_all add: transit_route_def)
    ultimately show ?thesis using e by (simp add: elapsed_transit)
  qed
qed

lemma sort_minutes_elapsed:
  assumes r: "r \<in> set (find_routes store orig dest start)" and n: "0 \<le> elapsed_ms r"
  shows "sort_minutes r = elapsed_ms r div 60000"
proof -
  from r have "(\<exists>f. r = direct_route f) \<or> (\<exists>a b. r = transit_route a b)"
    using find_routes_cases by blast
  then have td: "total_duration r =
      calculateDuration (departure_datetime (hd (flights r))) (arrival_datetime (last (flights r)))"
    using total_duration_elapsed by blast
  from n have le: "departure_datetime (hd (flights r)) \<le> arrival_datetime (last (flights r))"
    by (simp add: elapsed_ms_def)
  show ?thesis
    unfolding sort_minutes_def td elapsed_ms_def parseDuration_nonneg [OF le]
    by (rule hours_minutes_eq)
qed

text \<open>
  Claim C3, as amended. Whatever the store answers, the routes returned are
  sorted non-decreasing by the minutes the sort reads from the field
  (\<open>parseDuration\<close>), and of two routes returned whose time from the first
  departure to the last arrival is not negative, the earlier in the result takes
  no more whole minutes than the later. The sort is stable: the options of one
  key \<open>k\<close> are the direct options of that key in the order they were found,
  followed by the transit options of that key in the order they were found.
\<close>

theorem find_routes_sorted_stable:
  "sorted (map (\<lambda>r. parseDuration (total_duration r)) (find_routes store orig dest start)) \<and>
   (i < j \<and> j < length (find_routes store orig dest start) \<and>
    0 \<le> elapsed_ms (find_routes store orig dest start ! i) \<and>
    0 \<le> elapsed_ms (find_routes store orig dest start ! j) \<longrightarrow>
      elapsed_ms (find_routes store orig dest start ! i) div 60000
        \<le> elapsed_ms (find_routes store orig dest start ! j) div 60000) \<and>
   filter (\<lambda>r. parseDuration (total_duration r) = k) (find_routes store orig dest start) =
     filter (\<lambda>r. parseDuration (total_duration r) = k) (direct_routes store orig dest start) @
     filter (\<lambda>r. parseDuration (total_duration r) = k) (transit_routes store orig dest start) \<and>
   list_all (\<lambda>r. rtype r = Direct) (direct_routes store orig dest start) \<and>
   list_all (\<lambda>r. rtype r = Transit) (transit_routes store orig dest start)"
proof -
  let ?out = "find_routes store orig dest start"
  have key: "sort_minutes = (\<lambda>r. parseDuration (total_duration r))"
    by (rule ext) (simp add: sort_minutes_def)
  have srt: "sorted (map sort_minutes ?out)"
    unfolding find_routes_def by (rule sorted_sort_key)
  have stable: "filter (\<lambda>r. sort_minutes r = k) ?out =
     filter (\<lambda>r. sort_minutes r = k)
       (direct_routes store orig dest start @ transit_routes store orig dest start)"
    unfolding find_routes_def by (rule sort_key_stable)
  have pair: "elapsed_ms (?out ! i) div 60000 \<le> elapsed_ms (?out ! j) div 60000"
    if h: "i < j \<and> j < length ?out \<and> 0 \<le> elapsed_ms (?out ! i) \<and> 0 \<le> elapsed_ms (?out ! j)"
  proof -
    from h have ij: "i \<le> j" "j < length (map sort_minutes ?out)" "i < length ?out" by simp_all
    from srt ij(1,2) have "map sort_minutes ?out ! i \<le> map sort_minutes ?out ! j"
      by (rule sorted_nth_mono)
    then have le: "sort_minutes (?out ! i) \<le> sort_minutes (?out ! j)" using h ij(3) by simp
    from h ij(3) have mi: "?out ! i \<in> set ?out" and mj: "?out ! j \<in> set ?out" by simp_all
    from h have ni: "0 \<le> elapsed_ms (?out ! i)" and nj: "0 \<le> elapsed_ms (?out ! j)"
      by simp_all
    show ?thesis
      using le unfolding sort_minutes_elapsed [OF mi ni] sort_minutes_elapsed [OF mj nj] .
  qed
  from srt stable pair show ?thesis
    using direct_routes_all_direct transit_routes_all_transit by (simp add: key)
qed

theorem find_routes_sorted_stable_witness:
  "find_routes (catalog_store tie_catalog) ''DEL'' ''BLR'' 0 =
     [direct_route del_blr, transit_route del_bom bom_blr_1, transit_route del_bom bom_blr_2] \<and>
   filter (\<lambda>r. parseDuration (total_duration r) = 390)
     (find_routes (catalog_store tie_catalog) ''DEL'' ''BLR'' 0) =
     [direct_route del_blr, transit_route del_bom bom_blr_1] \<and>
   elapsed_ms (transit_route del_bom bom_blr_1) div 60000
     \<le> elapsed_ms (transit_route del_bom bom_blr_2) div 60000"
proof -
  let ?out = "find_routes (catalog_store tie_catalog) ''DEL'' ''BLR'' 0"
  note inst = find_routes_sorted_stable
    [of "catalog_store tie_catalog" "''DEL''" "''BLR''" 0 1 2 390]
  have o: "?out =
     [direct_route del_blr, transit_route del_bom bom_blr_1, transit_route del_bom bom_blr_2]"
    by code_simp
  have d: "filter (\<lambda>r. parseDuration (total_duration r) = 390)
      (direct_routes (catalog_store tie_catalog) ''DEL'' ''BLR'' 0) = [direct_route del_blr]"
    by code_simp
  have t: "filter (\<lambda>r. parseDuration (total_duration r) = 390)
      (transit_routes (catalog_store tie_catalog) ''DEL'' ''BLR'' 0) =
      [transit_route del_bom bom_blr_1]"
    by code_simp
  from inst have "filter (\<lambda>r. parseDuration (total_duration r) = 390) ?out =
     filter (\<lambda>r. parseDuration (total_duration r) = 390)
       (direct_routes (catalog_store tie_catalog) ''DEL'' ''BLR'' 0) @
     filter (\<lambda>r. parseDuration (total_duration r) = 390)
       (transit_routes (catalog_store tie_catalog) ''DEL'' ''BLR'' 0)" by blast
  then have f: "filter (\<lambda>r. parseDuration (total_duration r) = 390) ?out =
     [direct_route del_blr, transit_route del_bom bom_blr_1]"
    unfolding d t by simp
  have n1: "?out ! 1 = transit_route del_bom bom_blr_1"
    and n2: "?out ! 2 = transit_route del_bom bom_blr_2"
    and len: "2 < length ?out"
    unfolding o by simp_all
  have e: "0 \<le> elapsed_ms (transit_route del_bom bom_blr_1)"
    "0 \<le> elapsed_ms (transit_route del_bom bom_blr_2)"
    by (simp_all add: elapsed_transit sample_defs)
  have hyp: "(1::nat) < 2 \<and> 2 < length ?out \<and> 0 \<le> elapsed_ms (?out ! 1) \<and>
      0 \<le> elapsed_ms (?out ! 2)"
    using len e unfolding n1 n2 by simp
  from inst hyp have "elapsed_ms (?out ! 1) div 60000 \<le> elapsed_ms (?out ! 2) div 60000"
    by blast
  then have p: "elapsed_ms (transit_route del_bom bom_blr_1) div 60000
     \<le> elapsed_ms (transit_route del_bom bom_blr_2) div 60000"
    unfolding n1 n2 .
  from o f p show ?thesis by blast
qed

text \<open>
  The claim as stated fails for flights that arrive before they depart: the sort
  reads \<open>0\<close> from \<^verbatim>\<open>-3h -30m\<close> and \<open>60\<close> from \<^verbatim>\<open>-1h 0m\<close>, and the result is
  not in the order of the durations.
\<close>

theorem unsorted_durations_counterexample:
  "map total_duration (find_routes (catalog_store backward_catalog) ''DEL'' ''BLR'' 0) =
     [''-3h -30m'', ''0h 30m'', ''-1h 0m''] \<and>
   map elapsed_ms (find_routes (catalog_store backward_catalog) ''DEL'' ''BLR'' 0) =
     [- 9000000, 1800000, - 3600000] \<and>
   \<not> sorted (map elapsed_ms (find_routes (catalog_store backward_catalog) ''DEL'' ''BLR'' 0)) \<and>
   \<not> sorted (map (\<lambda>r. elapsed_ms r div 60000)
     (find_routes (catalog_store backward_catalog) ''DEL'' ''BLR'' 0))"
  by code_simp

text \<open>
  Claim C7. The second-hop query of a first hop yields at most 3 flights, ordered
  by departure, and none of the flights of the window that it leaves out departs
  earlier than one it yields. So a first hop adds at most 3 transit options, and
  the transit options of the result number at most 3 for each first hop.
\<close>

theorem second_hop_cap:
  "length (run_query catalog (second_hop_query dest a)) \<le> 3 \<and>
   sorted (map departure_datetime (run_query catalog (second_hop_query dest a))) \<and>
   (x \<in> set (run_query catalog (second_hop_query dest a)) \<and>
    y \<in> set catalog \<and> selects (second_hop_query dest a) y \<and>
    y \<notin> set (run_query catalog (second_hop_query dest a)) \<longrightarrow>
      departure_datetime x \<le> departure_datetime y) \<and>
   length (transit_routes_of (catalog_store catalog) dest a) \<le> 3 \<and>
   length (filter (\<lambda>r. rtype r = Transit) (find_routes (catalog_store catalog) orig dest start))
     \<le> 3 * length (run_query catalog (first_hop_query orig dest start))"
proof (intro conjI impI)
  let ?win = "sort_key departure_datetime (filter (selects (second_hop_query dest a)) catalog)"
  show "length (run_query catalog (second_hop_query dest a)) \<le> 3" by (rule length_second_hop)
  have s: "sorted (map departure_datetime ?win)" by (rule sorted_sort_key)
  then show "sorted (map departure_datetime (run_query catalog (second_hop_query dest a)))"
    unfolding run_query_second_hop by (simp add: sorted_wrt_take flip: take_map)
  show "length (transit_routes_of (catalog_store catalog) dest a) \<le> 3"
    by (rule length_transit_routes_of)
  have "filter (\<lambda>r. rtype r = Transit) (find_routes (catalog_store catalog) orig dest start) =
      sort_key sort_minutes (filter (\<lambda>r. rtype r = Transit)
        (direct_routes (catalog_store catalog) orig dest start @
         transit_routes (catalog_store catalog) orig dest start))"
    unfolding find_routes_def by (rule filter_sort)
  then have "length (filter (\<lambda>r. rtype r = Transit) (find_routes (catalog_store catalog) orig dest start))
      \<le> length (transit_routes (catalog_store catalog) orig dest start)"
    using direct_routes_all_direct [of "catalog_store catalog" orig dest start]
    by (simp add: list_all_iff filter_empty_conv [THEN iffD2])
  also have "\<dots> \<le> 3 * length (run_query catalog (first_hop_query orig dest start))"
    unfolding transit_routes_catalog using length_transit_routes_of by (rule length_concat_le)
  finally show "length (filter (\<lambda>r. rtype r = Transit) (find_routes (catalog_store catalog) orig dest start))
     \<le> 3 * length (run_query catalog (first_hop_query orig dest start))" .
next
  let ?win = "sort_key departure_datetime (filter (selects (second_hop_query dest a)) catalog)"
  assume h: "x \<in> set (run_query catalog (second_hop_query dest a)) \<and>
    y \<in> set catalog \<and> selects (second_hop_query dest a) y \<and>
    y \<notin> set (run_query catalog (second_hop_query dest a))"
  have s: "sorted (map departure_datetime ?win)" by (rule sorted_sort_key)
  from h have "y \<in> set ?win" by simp
  with s h show "departure_datetime x \<le> departure_datetime y"
    unfolding run_query_second_hop by (intro sorted_take_le_rest [of departure_datetime ?win x 3 y]) simp_all
qed

theorem second_hop_cap_witness:
  "run_query sample_catalog (second_hop_query ''BLR'' del_bom) =
     [bom_blr_1, bom_blr_2, bom_blr_3] \<and>
   bom_blr_4 \<in> set sample_catalog \<and>
   departure_datetime bom_blr_3 \<le> departure_datetime bom_blr_4"
proof -
  have q: "run_query sample_catalog (second_hop_query ''BLR'' del_bom) =
      [bom_blr_1, bom_blr_2, bom_blr_3]"
    by (simp add: run_query_def second_hop_query_def selects_def day_ms_def sample_defs)
  have hyp: "bom_blr_3 \<in> set (run_query sample_catalog (second_hop_query ''BLR'' del_bom)) \<and>
    bom_blr_4 \<in> set sample_catalog \<and> selects (second_hop_query ''BLR'' del_bom) bom_blr_4 \<and>
    bom_blr_4 \<notin> set (run_query sample_catalog (second_hop_query ''BLR'' del_bom))"
    unfolding q by (simp add: second_hop_query_def selects_def day_ms_def sample_defs)
  have "departure_datetime bom_blr_3 \<le> departure_datetime bom_blr_4"
    using second_hop_cap [of sample_catalog "''BLR''" del_bom bom_blr_3 bom_blr_4] hyp by blast
  with q hyp show ?thesis by blast
qed

text \<open>
  Claim C1, as amended. Every transit option returned, whatever the store
  answers, has two flights with a layover of at least 2 hours. For a store that
  answers from a catalog: a first hop of the query's day and a flight that the
  capped second-hop query yields for it, with a layover of at least 2 hours,
  appear as a transit option. A flight of the second-hop window is among the
  flights the query yields whenever at most 3 flights of the catalog lie in that
  window.
\<close>

theorem transit_layover_and_completeness:
  "(r \<in> set (find_routes store orig dest start) \<and> rtype r = Transit \<longrightarrow>
      (\<exists>a b. flights r = [a, b] \<and> layoverHours a b \<ge> 2 \<and>
         7200000 \<le> departure_datetime b - arrival_datetime a)) \<and>
   (first \<in> set catalog \<and> origin first = orig \<and> destination first \<noteq> dest \<and>
    start \<le> departure_datetime first \<and> departure_datetime first < start + 86400000 \<and>
    second \<in> set (run_query catalog (second_hop_query dest first)) \<and>
    7200000 \<le> departure_datetime second - arrival_datetime first \<longrightarrow>
      \<lparr>rtype = Transit, flights = [first, second],
       total_duration =
         calculateDuration (departure_datetime first) (arrival_datetime second)\<rparr>
        \<in> set (find_routes (catalog_store catalog) orig dest start)) \<and>
   (p \<in> set catalog \<and> origin p = destination q \<and> destination p = dest \<and>
    arrival_datetime q \<le> departure_datetime p \<and>
    departure_datetime p < arrival_datetime q + 172800000 \<and>
    length (filter (selects (second_hop_query dest q)) catalog) \<le> 3 \<longrightarrow>
      p \<in> set (run_query catalog (second_hop_query dest q)))"
proof (intro conjI impI)
  assume h: "r \<in> set (find_routes store orig dest start) \<and> rtype r = Transit"
  then have "(\<exists>f. r = direct_route f) \<or> (\<exists>a b. layoverHours a b \<ge> 2 \<and> r = transit_route a b)"
    using find_routes_cases by blast
  with h obtain a b where "layoverHours a b \<ge> 2" "r = transit_route a b"
    by (auto simp: direct_route_def)
  then show "\<exists>a b. flights r = [a, b] \<and> layoverHours a b \<ge> 2 \<and>
      7200000 \<le> departure_datetime b - arrival_datetime a"
    using layoverHours_ge_2 [of a b] by (auto simp: transit_route_def)
next
  assume h: "first \<in> set catalog \<and> origin first = orig \<and> destination first \<noteq> dest \<and>
    start \<le> departure_datetime first \<and> departure_datetime first < start + 86400000 \<and>
    second \<in> set (run_query catalog (second_hop_query dest first)) \<and>
    7200000 \<le> departure_datetime second - arrival_datetime first"
  then have "selects (first_hop_query orig dest start) first"
    by (simp add: selects_def first_hop_query_def day_ms_def)
  with h have "first \<in> set (run_query catalog (first_hop_query orig dest start))"
    by (simp add: set_run_query_unlimited first_hop_query_def)
  with h have "transit_route first second \<in> set (find_routes (catalog_store catalog) orig dest start)"
    by (intro transit_in_find_routes) simp_all
  then show "\<lparr>rtype = Transit, flights = [first, second],
       total_duration =
         calculateDuration (departure_datetime first) (arrival_datetime second)\<rparr>
        \<in> set (find_routes (catalog_store catalog) orig dest start)"
    by (simp add: transit_route_def)
next
  assume h: "p \<in> set catalog \<and> origin p = destination q \<and> destination p = dest \<and>
    arrival_datetime q \<le> departure_datetime p \<and>
    departure_datetime p < arrival_datetime q + 172800000 \<and>
    length (filter (selects (second_hop_query dest q)) catalog) \<le> 3"
  then have "selects (second_hop_query dest q) p"
    by (simp add: selects_def second_hop_query_def day_ms_def)
  with h show "p \<in> set (run_query catalog (second_hop_query dest q))"
    by (intro window_within_cap [of _ _ 3]) (simp_all add: second_hop_query_def)
qed

theorem transit_layover_and_completeness_witness:
  "transit_route del_bom bom_blr_1 \<in>
     set (find_routes (catalog_store sample_catalog) ''DEL'' ''BLR'' 0) \<and>
   flights (transit_route del_bom bom_blr_1) = [del_bom, bom_blr_1] \<and>
   layoverHours del_bom bom_blr_1 \<ge> 2 \<and>
   bom_blr_2 \<in> set (run_query [del_bom, bom_blr_1, bom_blr_2] (second_hop_query ''BLR'' del_bom))"
proof -
  note inst = transit_layover_and_completeness
    [of "transit_route del_bom bom_blr_1" "catalog_store sample_catalog" "''DEL''" "''BLR''" 0
        del_bom sample_catalog bom_blr_1 bom_blr_2 del_bom]
  have q: "run_query sample_catalog (second_hop_query ''BLR'' del_bom) = [bom_blr_1, bom_blr_2, bom_blr_3]"
    by (simp add: run_query_def second_hop_query_def selects_def day_ms_def sample_defs)
  have hyp2: "del_bom \<in> set sample_catalog \<and> origin del_bom = ''DEL'' \<and> destination del_bom \<noteq> ''BLR'' \<and>
    0 \<le> departure_datetime del_bom \<and> departure_datetime del_bom < 0 + 86400000 \<and>
    bom_blr_1 \<in> set (run_query sample_catalog (second_hop_query ''BLR'' del_bom)) \<and>
    7200000 \<le> departure_datetime bom_blr_1 - arrival_datetime del_bom"
    unfolding q by (simp add: sample_defs)
  have mem: "transit_route del_bom bom_blr_1 \<in>
     set (find_routes (catalog_store sample_catalog) ''DEL'' ''BLR'' 0)"
    using inst hyp2 unfolding transit_route_def by blast
  have ty: "rtype (transit_route del_bom bom_blr_1) = Transit" by (simp add: transit_route_def)
  from inst mem ty obtain a b where
    ab: "flights (transit_route del_bom bom_blr_1) = [a, b]" "layoverHours a b \<ge> 2" by blast
  then have "a = del_bom" "b = bom_blr_1" by (simp_all add: transit_route_def)
  with ab have lay: "layoverHours del_bom bom_blr_1 \<ge> 2" by simp
  have hyp3: "bom_blr_2 \<in> set [del_bom, bom_blr_1, bom_blr_2] \<and>
    origin bom_blr_2 = destination del_bom \<and> destination bom_blr_2 = ''BLR'' \<and>
    arrival_datetime del_bom \<le> departure_datetime bom_blr_2 \<and>
    departure_datetime bom_blr_2 < arrival_datetime del_bom + 172800000 \<and>
    length (filter (selects (second_hop_query ''BLR'' del_bom)) [del_bom, bom_blr_1, bom_blr_2]) \<le> 3"
    by (simp add: sample_defs)
  have "bom_blr_2 \<in> set (run_query [del_bom, bom_blr_1, bom_blr_2] (second_hop_query ''BLR'' del_bom))"
    using transit_layover_and_completeness
      [of r store orig "''BLR''" start first "[del_bom, bom_blr_1, bom_blr_2]" second bom_blr_2 del_bom]
      hyp3 by blast
  with mem lay show ?thesis by (simp add: transit_route_def)
qed

text \<open>
  The claim as stated fails at the cap: with four connecting flights in the window
  the fourth pair meets every condition of the claim and is not returned.
\<close>

theorem transit_cap_counterexample:
  "del_bom \<in> set sample_catalog \<and> bom_blr_4 \<in> set sample_catalog \<and>
   origin del_bom = ''DEL'' \<and> destination del_bom = origin bom_blr_4 \<and>
   destination del_bom \<noteq> ''BLR'' \<and> destination bom_blr_4 = ''BLR'' \<and>
   0 \<le> departure_datetime del_bom \<and> departure_datetime del_bom < 0 + 86400000 \<and>
   arrival_datetime del_bom \<le> departure_datetime bom_blr_4 \<and>
   departure_datetime bom_blr_4 < arrival_datetime del_bom + 172800000 \<and>
   7200000 \<le> departure_datetime bom_blr_4 - arrival_datetime del_bom \<and>
   find_routes (catalog_store sample_catalog) ''DEL'' ''BLR'' 0 =
     [transit_route del_bom bom_blr_1, transit_route del_bom bom_blr_2,
      transit_route del_bom bom_blr_3] \<and>
   transit_route del_bom bom_blr_4 \<notin>
     set (find_routes (catalog_store sample_catalog) ''DEL'' ''BLR'' 0)"
  by code_simp

text \<open>
  Claim C8, as amended. Whatever the store answers, the total duration of every
  option returned is \<open>calculateDuration\<close> from the departure of its first flight
  to the arrival of its last (or only) flight. When no flight of the option
  itself arrives before it departs, that time is not negative; and whenever that
  time is not negative, the field reads as its whole hours and the whole minutes
  left over (floors, below 60), and the sort reads it as the whole minutes of that
  time.
\<close>

theorem total_duration_invariant:
  "r \<in> set (find_routes store orig dest start) \<longrightarrow>
     flights r \<noteq> [] \<and>
     total_duration r =
       calculateDuration (departure_datetime (hd (flights r)))
         (arrival_datetime (last (flights r))) \<and>
     ((\<forall>f \<in> set (flights r). departure_datetime f \<le> arrival_datetime f) \<longrightarrow>
        0 \<le> elapsed_ms r) \<and>
     (0 \<le> elapsed_ms r \<longrightarrow>
        total_duration r =
          digits_of (nat (elapsed_ms r div 3600000)) @ ''h '' @
          digits_of (nat ((elapsed_ms r mod 3600000) div 60000)) @ ''m'' \<and>
        (elapsed_ms r mod 3600000) div 60000 < 60 \<and>
        parseDuration (total_duration r) = elapsed_ms r div 60000)"
proof (intro impI)
  assume r: "r \<in> set (find_routes store orig dest start)"
  then have c: "(\<exists>f. r = direct_route f) \<or> (\<exists>a b. r = transit_route a b)"
    using find_routes_cases by blast
  then have ne: "flights r \<noteq> []"
    and td: "total_duration r =
      calculateDuration (departure_datetime (hd (flights r))) (arrival_datetime (last (flights r)))"
    using total_duration_elapsed by blast+
  have own: "(\<forall>f \<in> set (flights r). departure_datetime f \<le> arrival_datetime f) \<longrightarrow>
      0 \<le> elapsed_ms r"
    using elapsed_nonneg [OF r] by blast
  have rend: "total_duration r =
          digits_of (nat (elapsed_ms r div 3600000)) @ ''h '' @
          digits_of (nat ((elapsed_ms r mod 3600000) div 60000)) @ ''m'' \<and>
        (elapsed_ms r mod 3600000) div 60000 < 60 \<and>
        parseDuration (total_duration r) = elapsed_ms r div 60000"
    if n: "0 \<le> elapsed_ms r"
  proof (intro conjI)
    from n have le: "departure_datetime (hd (flights r)) \<le> arrival_datetime (last (flights r))"
      by (simp add: elapsed_ms_def)
    show "total_duration r =
          digits_of (nat (elapsed_ms r div 3600000)) @ ''h '' @
          digits_of (nat ((elapsed_ms r mod 3600000) div 60000)) @ ''m''"
      unfolding td elapsed_ms_def by (rule calculateDuration_nonneg [OF le])
    show "(elapsed_ms r mod 3600000) div 60000 < 60" by simp
    show "parseDuration (total_duration r) = elapsed_ms r div 60000"
      using sort_minutes_elapsed [OF r n] by (simp add: sort_minutes_def)
  qed
  from ne td own rend show "flights r \<noteq> [] \<and>
     total_duration r =
       calculateDuration (departure_datetime (hd (flights r)))
         (arrival_datetime (last (flights r))) \<and>
     ((\<forall>f \<in> set (flights r). departure_datetime f \<le> arrival_datetime f) \<longrightarrow>
        0 \<le> elapsed_ms r) \<and>
     (0 \<le> elapsed_ms r \<longrightarrow>
        total_duration r =
          digits_of (nat (elapsed_ms r div 3600000)) @ ''h '' @
          digits_of (nat ((elapsed_ms r mod 3600000) div 60000)) @ ''m'' \<and>
        (elapsed_ms r mod 3600000) div 60000 < 60 \<and>
        parseDuration (total_duration r) = elapsed_ms r div 60000)"
    by blast
qed

theorem total_duration_invariant_witness:
  "transit_route del_bom bom_blr_1 \<in>
     set (find_routes (catalog_store sample_catalog) ''DEL'' ''BLR'' 0) \<and>
   total_duration (transit_route del_bom bom_blr_1) =
     calculateDuration (departure_datetime del_bom) (arrival_datetime bom_blr_1) \<and>
   elapsed_ms (transit_route del_bom bom_blr_1) = 23400000 \<and>
   total_duration (transit_route del_bom bom_blr_1) = ''6h 30m'' \<and>
   parseDuration (total_duration (transit_route del_bom bom_blr_1)) = 390"
proof -
  let ?r = "transit_route del_bom bom_blr_1"
  have mem: "?r \<in> set (find_routes (catalog_store sample_catalog) ''DEL'' ''BLR'' 0)"
    by code_simp
  have own: "\<forall>f \<in> set (flights ?r). departure_datetime f \<le> arrival_datetime f"
    by (simp add: transit_route_def sample_defs)
  have e: "elapsed_ms ?r = 23400000"
    by (simp add: elapsed_transit sample_defs)
  note inst = total_duration_invariant
    [of ?r "catalog_store sample_catalog" "''DEL''" "''BLR''" 0]
  from inst mem own have n: "0 \<le> elapsed_ms ?r" by blast
  from inst mem have "total_duration ?r =
      calculateDuration (departure_datetime (hd (flights ?r)))
        (arrival_datetime (last (flights ?r)))" by blast
  then have c: "total_duration ?r =
     calculateDuration (departure_datetime del_bom) (arrival_datetime bom_blr_1)"
    by (simp add: transit_route_def)
  from inst mem n have
    "total_duration ?r =
        digits_of (nat (elapsed_ms ?r div 3600000)) @ ''h '' @
        digits_of (nat ((elapsed_ms ?r mod 3600000) div 60000)) @ ''m''"
    and p: "parseDuration (total_duration ?r) = elapsed_ms ?r div 60000"
    by blast+
  then have "total_duration ?r = digits_of 6 @ ''h '' @ digits_of 30 @ ''m''"
    unfolding e by simp
  also have "\<dots> = ''6h 30m''" by code_simp
  finally have td: "total_duration ?r = ''6h 30m''" .
  from p have k: "parseDuration (total_duration ?r) = 390" unfolding e by simp
  from mem c e td k show ?thesis by blast
qed

text \<open>
  The claim as stated fails for a flight that arrives before it departs, which
  nothing in the table or in the handler excludes: the time of its direct option
  is negative.
\<close>

theorem negative_duration_counterexample:
  "find_routes (catalog_store [del_blr_back]) ''DEL'' ''BLR'' 0 =
     [\<lparr>rtype = Direct, flights = [del_blr_back], total_duration = ''-3h -30m''\<rparr>] \<and>
   arrival_datetime del_blr_back - departure_datetime del_blr_back = - 9000000"
  by code_simp

text \<open>
  Claim C5. A request with all three fields, against a store whose every query
  fails, is answered with status 200 and no routes: the handler reads only
  \<open>data\<close> of what a query resolves to, so a failed query looks like one without
  rows. A store that finds no flights is answered the same way.
\<close>

theorem store_failure_is_empty_success:
  "get_routes failing_store
     \<lparr>origin_field = Some (c # cs), destination_field = Some (d # ds),
      departure_date = Instant t\<rparr> = Response 200 (OkBody []) \<and>
   get_routes (\<lambda>q. PgResponse (Some []) None)
     \<lparr>origin_field = Some (c # cs), destination_field = Some (d # ds),
      departure_date = Instant t\<rparr> = Response 200 (OkBody [])"
  by (simp add: get_routes_def find_routes_def direct_routes_def transit_routes_def
      failing_store_def)

section \<open>Properties of the status change\<close>

lemmas booking_sample_defs = sample_booking_def sample_event_def sample_db_def sample_env_def
  sample_request_def

lemma allows_validTransitions:
  "allows validTransitions c s \<longleftrightarrow>
     (c = ''BOOKED'' \<and> (s = ''DEPARTED'' \<or> s = ''CANCELLED'')) \<or>
     (c = ''DEPARTED'' \<and> s = ''ARRIVED'') \<or> (c = ''ARRIVED'' \<and> s = ''DELIVERED'')"
  by (simp add: allows_def validTransitions_def)

lemma select_booking_found:
  "filter (\<lambda>b. ref_id b = ref) (bookings db) = [cur] \<Longrightarrow> select_booking_ok env \<Longrightarrow>
   select_booking env db ref = PgResponse (Some cur) None"
  by (simp add: select_booking_def)

lemma update_booking_found:
  "filter (\<lambda>b. ref_id b = ref) (bookings db) = [cur] \<Longrightarrow> st \<in> set validStatuses \<Longrightarrow>
   update_booking env db ref st =
     (if update_booking_ok env then
        (\<lparr>bookings = map (\<lambda>b. if ref_id b = ref then cur\<lparr>status := st, updated_at := now env\<rparr> else b) (bookings db),
          booking_events = create_booking_event env cur (cur\<lparr>status := st, updated_at := now env\<rparr>) (booking_events db)\<rparr>,
         PgResponse (Some (cur\<lparr>status := st, updated_at := now env\<rparr>)) None)
      else (db, PgResponse None (Some ''store error'')))"
  by (simp add: update_booking_def Let_def validStatuses_def)

lemma handler_found:
  assumes "filter (\<lambda>b. ref_id b = ref) (bookings db) = [cur]" "select_booking_ok env"
    and "ref \<noteq> []" "st \<in> set validStatuses"
    and "ref_id_field req = Some ref" "status_field req = Some st"
  shows "update_booking_status_with table env db req =
    (if \<not> allows table (status cur) st then
       (db, Response 400 (ErrorBody (''Cannot change status from '' @ status cur @ '' to '' @ st)))
     else if st = ''CANCELLED'' \<and> (status cur = ''ARRIVED'' \<or> status cur = ''DELIVERED'') then
       (db, Response 400 (ErrorBody ''Cannot cancel booking that has already arrived''))
     else if update_booking_ok env then
       (after_update env (fst (update_booking env db ref st)) req
          (cur\<lparr>status := st, updated_at := now env\<rparr>),
        Response 200 (OkBody (''Booking status updated successfully'',
          Some (cur\<lparr>status := st, updated_at := now env\<rparr>))))
     else (db, Response 500 (ErrorBody ''Failed to update booking status'')))"
proof -
  have ne: "st \<noteq> []" using assms(4) by (auto simp: validStatuses_def)
  show ?thesis
    unfolding update_booking_status_with_def
    using assms ne
    by (auto simp: select_booking_found update_booking_found after_update_def)
qed

lemma bookings_after_update:
  "bookings (after_update env db req b) = bookings db"
  by (simp add: after_update_def patch_latest_event_def update_event_def split: option.splits)

lemma handler_outcome:
  "(\<exists>code msg. update_booking_status_with table env db req = (db, Response code (ErrorBody msg)) \<and>
      code \<noteq> 200) \<or>
   (\<exists>ref st db1 b. ref_id_field req = Some ref \<and> status_field req = Some st \<and>
      update_booking env db ref st = (db1, PgResponse (Some b) None) \<and>
      update_booking_status_with table env db req =
        (after_update env db1 req b,
         Response 200 (OkBody (''Booking status updated successfully'', Some b))))"
proof -
  have upd: "\<And>ref st. (\<exists>db1 b. update_booking env db ref st = (db1, PgResponse (Some b) None)) \<or>
      (\<exists>x e. update_booking env db ref st = (db, PgResponse x (Some e)))"
    by (auto simp: update_booking_def Let_def split: if_splits list.splits)
  show ?thesis
  proof (cases "ref_id_field req")
    case None
    then show ?thesis by (simp add: update_booking_status_with_def)
  next
    case (Some ref)
    note ref = this
    show ?thesis
    proof (cases "status_field req")
      case None
      with ref show ?thesis by (simp add: update_booking_status_with_def)
    next
      case (Some st)
      from upd [of ref st] show ?thesis
      proof
        assume "\<exists>db1 b. update_booking env db ref st = (db1, PgResponse (Some b) None)"
        then obtain db1 b where "update_booking env db ref st = (db1, PgResponse (Some b) None)"
          by blast
        with ref Some show ?thesis
          by (simp add: update_booking_status_with_def after_update_def
              split: pg_response.splits option.splits)
      next
        assume "\<exists>x e. update_booking env db ref st = (db, PgResponse x (Some e))"
        then obtain x e where "update_booking env db ref st = (db, PgResponse x (Some e))" by blast
        with ref Some show ?thesis
          by (simp add: update_booking_status_with_def split: pg_response.splits option.splits)
      qed
    qed
  qed
qed

lemma handler_source_found:
  assumes "filter (\<lambda>b. ref_id b = ref) (bookings db) = [cur]" "select_booking_ok env"
    and "ref \<noteq> []" "st \<in> set validStatuses"
    and "ref_id_field req = Some ref" "status_field req = Some st"
  shows "update_booking_status env db req =
    (if \<not> allows validTransitions (status cur) st then
       (db, Response 400 (ErrorBody (''Cannot change status from '' @ status cur @ '' to '' @ st)))
     else if update_booking_ok env then
       (after_update env (fst (update_booking env db ref st)) req
          (cur\<lparr>status := st, updated_at := now env\<rparr>),
        Response 200 (OkBody (''Booking status updated successfully'',
          Some (cur\<lparr>status := st, updated_at := now env\<rparr>))))
     else (db, Response 500 (ErrorBody ''Failed to update booking status'')))"
  unfolding update_booking_status_def handler_found [OF assms]
  by (auto simp: allows_validTransitions)

text \<open>
  Claim C2. For a booking that exists under the reference of the request, with
  current status \<open>status cur\<close>, and a requested status \<open>st\<close> among the five
  known ones: the table allows the pair exactly for the four listed transitions;
  a pair it does not allow is answered with status 400 and the message
  \<^verbatim>\<open>Cannot change status from {current} to {requested}\<close>, the database
  unchanged; a pair it allows succeeds when the store carries the update out and
  is answered with status 500 when it does not. So, with a store that carries the
  update out, the request succeeds exactly when the table lists the pair. From
  \<^verbatim>\<open>DELIVERED\<close> and \<^verbatim>\<open>CANCELLED\<close> the table allows nothing.
\<close>

theorem transition_table_decides:
  "filter (\<lambda>b. ref_id b = ref) (bookings db) = [cur] \<and> select_booking_ok env \<and> ref \<noteq> [] \<and>
   st \<in> set validStatuses \<and> ref_id_field req = Some ref \<and> status_field req = Some st \<longrightarrow>
     (allows validTransitions (status cur) st \<longleftrightarrow>
        (status cur, st) \<in> set [(''BOOKED'', ''DEPARTED''), (''BOOKED'', ''CANCELLED''),
                               (''DEPARTED'', ''ARRIVED''), (''ARRIVED'', ''DELIVERED'')]) \<and>
     (\<not> allows validTransitions (status cur) st \<longrightarrow>
        update_booking_status env db req =
          (db, Response 400
             (ErrorBody (''Cannot change status from '' @ status cur @ '' to '' @ st)))) \<and>
     (allows validTransitions (status cur) st \<and> update_booking_ok env \<longrightarrow>
        snd (update_booking_status env db req) =
          Response 200 (OkBody (''Booking status updated successfully'',
            Some (cur\<lparr>status := st, updated_at := now env\<rparr>))) \<and>
        map status (bookings (fst (update_booking_status env db req))) =
          map (\<lambda>b. if ref_id b = ref then st else status b) (bookings db)) \<and>
     (allows validTransitions (status cur) st \<and> \<not> update_booking_ok env \<longrightarrow>
        update_booking_status env db req =
          (db, Response 500 (ErrorBody ''Failed to update booking status''))) \<and>
     (update_booking_ok env \<longrightarrow>
        (status_code (snd (update_booking_status env db req)) = 200 \<longleftrightarrow>
         allows validTransitions (status cur) st)) \<and>
     (status cur = ''DELIVERED'' \<or> status cur = ''CANCELLED'' \<longrightarrow>
        \<not> allows validTransitions (status cur) st)"
proof (intro impI)
  assume h: "filter (\<lambda>b. ref_id b = ref) (bookings db) = [cur] \<and> select_booking_ok env \<and>
    ref \<noteq> [] \<and> st \<in> set validStatuses \<and> ref_id_field req = Some ref \<and>
    status_field req = Some st"
  then have r: "update_booking_status env db req =
    (if \<not> allows validTransitions (status cur) st then
       (db, Response 400 (ErrorBody (''Cannot change status from '' @ status cur @ '' to '' @ st)))
     else if update_booking_ok env then
       (after_update env (fst (update_booking env db ref st)) req
          (cur\<lparr>status := st, updated_at := now env\<rparr>),
        Response 200 (OkBody (''Booking status updated successfully'',
          Some (cur\<lparr>status := st, updated_at := now env\<rparr>))))
     else (db, Response 500 (ErrorBody ''Failed to update booking status'')))"
    by (intro handler_source_found) simp_all
  have u: "update_booking_ok env \<Longrightarrow>
      map status (bookings (fst (update_booking env db ref st))) =
      map (\<lambda>b. if ref_id b = ref then st else status b) (bookings db)"
    using h by (simp add: update_booking_found comp_def)
  have t: "allows validTransitions (status cur) st \<longleftrightarrow>
        (status cur, st) \<in> set [(''BOOKED'', ''DEPARTED''), (''BOOKED'', ''CANCELLED''),
                               (''DEPARTED'', ''ARRIVED''), (''ARRIVED'', ''DELIVERED'')]"
    by (auto simp: allows_validTransitions)
  have d: "status cur = ''DELIVERED'' \<or> status cur = ''CANCELLED'' \<longrightarrow>
        \<not> allows validTransitions (status cur) st"
    by (auto simp: allows_validTransitions)
  show "(allows validTransitions (status cur) st \<longleftrightarrow>
        (status cur, st) \<in> set [(''BOOKED'', ''DEPARTED''), (''BOOKED'', ''CANCELLED''),
                               (''DEPARTED'', ''ARRIVED''), (''ARRIVED'', ''DELIVERED'')]) \<and>
     (\<not> allows validTransitions (status cur) st \<longrightarrow>
        update_booking_status env db req =
          (db, Response 400
             (ErrorBody (''Cannot change status from '' @ status cur @ '' to '' @ st)))) \<and>
     (allows validTransitions (status cur) st \<and> update_booking_ok env \<longrightarrow>
        snd (update_booking_status env db req) =
          Response 200 (OkBody (''Booking status updated successfully'',
            Some (cur\<lparr>status := st, updated_at := now env\<rparr>))) \<and>
        map status (bookings (fst (update_booking_status env db req))) =
          map (\<lambda>b. if ref_id b = ref then st else status b) (bookings db)) \<and>
     (allows validTransitions (status cur) st \<and> \<not> update_booking_ok env \<longrightarrow>
        update_booking_status env db req =
          (db, Response 500 (ErrorBody ''Failed to update booking status''))) \<and>
     (update_booking_ok env \<longrightarrow>
        (status_code (snd (update_booking_status env db req)) = 200 \<longleftrightarrow>
         allows validTransitions (status cur) st)) \<and>
     (status cur = ''DELIVERED'' \<or> status cur = ''CANCELLED'' \<longrightarrow>
        \<not> allows validTransitions (status cur) st)"
    using t d u by (simp add: r bookings_after_update)
qed

text \<open>
  Claim C6. For a booking that exists with current status \<^verbatim>\<open>ARRIVED\<close> or
  \<^verbatim>\<open>DELIVERED\<close>, the request for \<^verbatim>\<open>CANCELLED\<close> is answered with status 400
  and the database is unchanged, whatever the transition table is: by the table
  check when the table does not list the pair, and by the separate guard when it
  does. With the table of the source the answer comes from the table check.
\<close>

theorem cancel_after_arrival_rejected:
  "filter (\<lambda>b. ref_id b = ref) (bookings db) = [cur] \<and> select_booking_ok env \<and> ref \<noteq> [] \<and>
   ref_id_field req = Some ref \<and> status_field req = Some ''CANCELLED'' \<and>
   (status cur = ''ARRIVED'' \<or> status cur = ''DELIVERED'') \<longrightarrow>
     update_booking_status_with table env db req =
       (db, Response 400 (ErrorBody
          (if allows table (status cur) ''CANCELLED''
           then ''Cannot cancel booking that has already arrived''
           else ''Cannot change status from '' @ status cur @ '' to CANCELLED''))) \<and>
     update_booking_status env db req =
       (db, Response 400
          (ErrorBody (''Cannot change status from '' @ status cur @ '' to CANCELLED'')))"
proof (intro impI)
  assume h: "filter (\<lambda>b. ref_id b = ref) (bookings db) = [cur] \<and> select_booking_ok env \<and>
    ref \<noteq> [] \<and> ref_id_field req = Some ref \<and> status_field req = Some ''CANCELLED'' \<and>
    (status cur = ''ARRIVED'' \<or> status cur = ''DELIVERED'')"
  have v: "''CANCELLED'' \<in> set validStatuses" by (simp add: validStatuses_def)
  from h have g: "\<And>table. update_booking_status_with table env db req =
       (db, Response 400 (ErrorBody
          (if allows table (status cur) ''CANCELLED''
           then ''Cannot cancel booking that has already arrived''
           else ''Cannot change status from '' @ status cur @ '' to CANCELLED'')))"
    by (subst handler_found [of ref db cur env "''CANCELLED''" req]) (simp_all add: v)
  from h have "\<not> allows validTransitions (status cur) ''CANCELLED''"
    by (auto simp: allows_validTransitions)
  then show "update_booking_status_with table env db req =
       (db, Response 400 (ErrorBody
          (if allows table (status cur) ''CANCELLED''
           then ''Cannot cancel booking that has already arrived''
           else ''Cannot change status from '' @ status cur @ '' to CANCELLED''))) \<and>
     update_booking_status env db req =
       (db, Response 400
          (ErrorBody (''Cannot change status from '' @ status cur @ '' to CANCELLED'')))"
    unfolding update_booking_status_def by (simp add: g)
qed

text \<open>
  Claim C9. \<^verbatim>\<open>BOOKED\<close> is one of the accepted status strings, no state of the
  table lists it as a target, and for every booking that exists the request for
  \<^verbatim>\<open>BOOKED\<close> is answered with status 400 and the message of the table check,
  the database unchanged.
\<close>

theorem booked_never_reentered:
  "''BOOKED'' \<in> set validStatuses \<and> \<not> allows validTransitions c ''BOOKED'' \<and>
   (filter (\<lambda>b. ref_id b = ref) (bookings db) = [cur] \<and> select_booking_ok env \<and> ref \<noteq> [] \<and>
    ref_id_field req = Some ref \<and> status_field req = Some ''BOOKED'' \<longrightarrow>
      update_booking_status env db req =
        (db, Response 400
           (ErrorBody (''Cannot change status from '' @ status cur @ '' to BOOKED''))))"
proof (intro conjI impI)
  show v: "''BOOKED'' \<in> set validStatuses" by (simp add: validStatuses_def)
  show n: "\<not> allows validTransitions c ''BOOKED''" by (simp add: allows_validTransitions)
  assume h: "filter (\<lambda>b. ref_id b = ref) (bookings db) = [cur] \<and> select_booking_ok env \<and>
    ref \<noteq> [] \<and> ref_id_field req = Some ref \<and> status_field req = Some ''BOOKED''"
  then show "update_booking_status env db req =
        (db, Response 400
           (ErrorBody (''Cannot change status from '' @ status cur @ '' to BOOKED'')))"
    by (subst handler_source_found [of ref db cur env "''BOOKED''" req])
       (simp_all add: v allows_validTransitions)
qed

lemma error_leaves_database:
  "status_code (snd (update_booking_status env db req)) \<noteq> 200 \<Longrightarrow>
   fst (update_booking_status env db req) = db"
  using handler_outcome [of validTransitions env db req]
  by (auto simp: update_booking_status_def)

lemma sample_found:
  "filter (\<lambda>b. ref_id b = ''ACB123456'') (bookings sample_db) = [sample_booking] \<and>
   select_booking_ok sample_env \<and> ''ACB123456'' \<noteq> [] \<and>
   ref_id_field (sample_request st) = Some ''ACB123456'' \<and>
   status_field (sample_request st) = Some st"
  by (simp add: booking_sample_defs)

theorem transition_table_decides_witness:
  "update_booking_status sample_env sample_db (sample_request ''ARRIVED'') =
     (sample_db, Response 400 (ErrorBody ''Cannot change status from BOOKED to ARRIVED'')) \<and>
   status_code (snd (update_booking_status sample_env sample_db (sample_request ''DEPARTED''))) = 200 \<and>
   map status (bookings (fst (update_booking_status sample_env sample_db (sample_request ''DEPARTED''))))
     = [''DEPARTED''] \<and>
   update_booking_status down_env sample_db (sample_request ''DEPARTED'') =
     (sample_db, Response 500 (ErrorBody ''Failed to update booking status'')) \<and>
   update_booking_status sample_env delivered_db (sample_request ''CANCELLED'') =
     (delivered_db, Response 400 (ErrorBody ''Cannot change status from DELIVERED to CANCELLED''))"
proof -
  have no: "\<not> allows validTransitions (status sample_booking) ''ARRIVED''"
    by (simp add: allows_validTransitions sample_booking_def)
  have yes: "allows validTransitions (status sample_booking) ''DEPARTED''"
    by (simp add: allows_validTransitions sample_booking_def)
  have up: "update_booking_ok sample_env" "\<not> update_booking_ok down_env"
    by (simp_all add: sample_env_def down_env_def)
  have v: "''ARRIVED'' \<in> set validStatuses" "''DEPARTED'' \<in> set validStatuses"
    "''CANCELLED'' \<in> set validStatuses"
    by (simp_all add: validStatuses_def)
  have "update_booking_status sample_env sample_db (sample_request ''ARRIVED'') =
     (sample_db, Response 400
        (ErrorBody (''Cannot change status from '' @ status sample_booking @ '' to '' @ ''ARRIVED'')))"
    using transition_table_decides
      [of "''ACB123456''" sample_db sample_booking sample_env "''ARRIVED''" "sample_request ''ARRIVED''"]
      sample_found [of "''ARRIVED''"] v(1) no by blast
  then have a: "update_booking_status sample_env sample_db (sample_request ''ARRIVED'') =
     (sample_db, Response 400 (ErrorBody ''Cannot change status from BOOKED to ARRIVED''))"
    by (simp add: sample_booking_def)
  note dep = transition_table_decides
      [of "''ACB123456''" sample_db sample_booking sample_env "''DEPARTED''" "sample_request ''DEPARTED''"]
  have "status_code (snd (update_booking_status sample_env sample_db (sample_request ''DEPARTED''))) = 200 \<and>
        map status (bookings (fst (update_booking_status sample_env sample_db (sample_request ''DEPARTED'')))) =
          map (\<lambda>b. if ref_id b = ''ACB123456'' then ''DEPARTED'' else status b) (bookings sample_db)"
    using dep sample_found [of "''DEPARTED''"] v(2) yes up(1) by blast
  then have b: "status_code (snd (update_booking_status sample_env sample_db (sample_request ''DEPARTED''))) = 200"
    and c: "map status (bookings (fst (update_booking_status sample_env sample_db (sample_request ''DEPARTED''))))
     = [''DEPARTED'']"
    by (simp_all add: sample_db_def sample_booking_def)
  have down_found: "filter (\<lambda>b. ref_id b = ''ACB123456'') (bookings sample_db) = [sample_booking] \<and>
     select_booking_ok down_env"
    by (simp add: booking_sample_defs down_env_def)
  have d: "update_booking_status down_env sample_db (sample_request ''DEPARTED'') =
     (sample_db, Response 500 (ErrorBody ''Failed to update booking status''))"
    using transition_table_decides
      [of "''ACB123456''" sample_db sample_booking down_env "''DEPARTED''" "sample_request ''DEPARTED''"]
      sample_found [of "''DEPARTED''"] down_found v(2) yes up(2) by blast
  have del_found: "filter (\<lambda>b. ref_id b = ''ACB123456'') (bookings delivered_db) =
      [sample_booking\<lparr>status := ''DELIVERED''\<rparr>]"
    by (simp add: delivered_db_def sample_booking_def)
  have del: "status (sample_booking\<lparr>status := ''DELIVERED''\<rparr>) = ''DELIVERED''" by simp
  have "update_booking_status sample_env delivered_db (sample_request ''CANCELLED'') =
     (delivered_db, Response 400 (ErrorBody (''Cannot change status from '' @
        status (sample_booking\<lparr>status := ''DELIVERED''\<rparr>) @ '' to '' @ ''CANCELLED'')))"
    using transition_table_decides
      [of "''ACB123456''" delivered_db "sample_booking\<lparr>status := ''DELIVERED''\<rparr>" sample_env
          "''CANCELLED''" "sample_request ''CANCELLED''"]
      sample_found [of "''CANCELLED''"] del_found v(3) del by blast
  then have e: "update_booking_status sample_env delivered_db (sample_request ''CANCELLED'') =
     (delivered_db, Response 400 (ErrorBody ''Cannot change status from DELIVERED to CANCELLED''))"
    by simp
  from a b c d e show ?thesis by blast
qed

theorem cancel_after_arrival_rejected_witness:
  "update_booking_status_with [(''ARRIVED'', [''DELIVERED'', ''CANCELLED''])]
     sample_env arrived_db (sample_request ''CANCELLED'') =
     (arrived_db, Response 400 (ErrorBody ''Cannot cancel booking that has already arrived'')) \<and>
   update_booking_status sample_env arrived_db (sample_request ''CANCELLED'') =
     (arrived_db, Response 400 (ErrorBody ''Cannot change status from ARRIVED to CANCELLED''))"
proof -
  have h: "filter (\<lambda>b. ref_id b = ''ACB123456'') (bookings arrived_db) =
      [sample_booking\<lparr>status := ''ARRIVED''\<rparr>] \<and>
    select_booking_ok sample_env \<and> ''ACB123456'' \<noteq> [] \<and>
    ref_id_field (sample_request ''CANCELLED'') = Some ''ACB123456'' \<and>
    status_field (sample_request ''CANCELLED'') = Some ''CANCELLED'' \<and>
    (status (sample_booking\<lparr>status := ''ARRIVED''\<rparr>) = ''ARRIVED'' \<or>
     status (sample_booking\<lparr>status := ''ARRIVED''\<rparr>) = ''DELIVERED'')"
    using sample_found [of "''CANCELLED''"] by (simp add: arrived_db_def sample_booking_def)
  have al: "allows [(''ARRIVED'', [''DELIVERED'', ''CANCELLED''])]
      (status (sample_booking\<lparr>status := ''ARRIVED''\<rparr>)) ''CANCELLED''"
    by (simp add: allows_def)
  note inst = cancel_after_arrival_rejected
    [of "''ACB123456''" arrived_db "sample_booking\<lparr>status := ''ARRIVED''\<rparr>" sample_env
       "sample_request ''CANCELLED''" "[(''ARRIVED'', [''DELIVERED'', ''CANCELLED''])]"]
  from inst h al show ?thesis by simp
qed

theorem booked_never_reentered_witness:
  "update_booking_status sample_env sample_db (sample_request ''BOOKED'') =
     (sample_db, Response 400 (ErrorBody ''Cannot change status from BOOKED to BOOKED''))"
proof -
  have "update_booking_status sample_env sample_db (sample_request ''BOOKED'') =
     (sample_db, Response 400
        (ErrorBody (''Cannot change status from '' @ status sample_booking @ '' to BOOKED'')))"
    using booked_never_reentered
      [of c "''ACB123456''" sample_db sample_booking sample_env "sample_request ''BOOKED''"]
      sample_found [of "''BOOKED''"] by blast
  then show ?thesis by (simp add: sample_booking_def)
qed

text \<open>
  Claim C4. A request with notes for a booking in status \<^verbatim>\<open>BOOKED\<close>, against a
  store that carries out the update of the booking and rejects the update of the
  event: the answer is a success with status 200, the status of the booking is
  changed to \<^verbatim>\<open>DEPARTED\<close>, and no event holds the notes. The handler reads
  \<^verbatim>\<open>updateError\<close> of the update of the booking and answers 500 on it, and
  reads nothing of what the two calls on \<^verbatim>\<open>booking_events\<close> resolve to.
\<close>

theorem event_patch_dropped_on_success:
  "notes_field (sample_request ''DEPARTED'') = Some ''Loaded'' \<and>
   status_code (snd (update_booking_status blocked_env sample_db (sample_request ''DEPARTED''))) = 200 \<and>
   map status (bookings sample_db) = [''BOOKED''] \<and>
   map status (bookings (fst (update_booking_status blocked_env sample_db (sample_request ''DEPARTED''))))
     = [''DEPARTED''] \<and>
   map event_notes (booking_events
     (fst (update_booking_status blocked_env sample_db (sample_request ''DEPARTED'')))) = [None, None]"
  by code_simp

end
